theory Spec2Isabelle
  imports Complex_Main "HOL-Library.AList" "HOL-Library.Char_ord" "HOL-Library.List_Lexorder"
begin

section \<open>Values shared by the two record stores\<close>

text \<open>
  The repository keeps its records in two stores: the class \<open>MemStorage\<close> (maps keyed by
  numeric identifiers) and the functions of the document-database client (collections of
  documents keyed by string identifiers). Both are embedded below, function by function.

  JavaScript numbers are the type variable \<open>'n\<close>, of which nothing is assumed but that
  it has \<open>0\<close>, \<open>1\<close>, \<open>+\<close>, \<open>-\<close>, \<open><\<close> and \<open>\<le>\<close> (\<open>a >= b\<close> is
  \<open>b \<le> a\<close>): no law of arithmetic is used unless a theorem states it as a hypothesis,
  so what is proved holds of sums that round and of \<open>NaN\<close> as well. The conversions
  \<open>Number\<close>, \<open>parseInt\<close> and \<open>String\<close> between strings and numbers are arguments of
  the functions that call them. The records have the type of amounts as a parameter:
  \<open>MemStorage\<close> keeps amounts as strings (the \<open>numeric\<close> columns of the schema), reads
  them with \<open>Number\<close> and writes them with \<open>String\<close>; the database client keeps them
  as numbers. Quantities and stock are integers, and the identifier counters of
  \<open>MemStorage\<close> are natural numbers, written in decimal digits by \<open>String\<close>. A
  JavaScript \<open>Map\<close> and a document collection are association lists in insertion order
  (\<open>AList.update\<close> replaces the value of a key in place and appends a new key at the end,
  as \<open>Map.set\<close> does). The order of the list is the order in which the store hands out
  its records, and with it the order of the sums. Every \<open>new Date()\<close>
  evaluated while one operation runs is the argument \<open>now\<close> of that operation; the
  operations read back no time but the \<open>createdAt\<close> of a sale or return. User accounts
  are left out.
\<close>

subsection \<open>Decimal strings\<close>

definition digits10 :: string where
  "digits10 = ''0123456789''"

definition is_digit :: "char \<Rightarrow> bool" where
  "is_digit c = (c \<in> set digits10)"

definition digit_val :: "char \<Rightarrow> nat" where
  "digit_val c = of_char c - 48"

text \<open>\<open>String(n)\<close> for a non-negative integer.\<close>

fun String_nat :: "nat \<Rightarrow> string" where
  "String_nat n =
     (if n < 10 then [digits10 ! n] else String_nat (n div 10) @ [digits10 ! (n mod 10)])"

declare String_nat.simps [simp del]

text \<open>\<open>s.padStart(n, c)\<close> for a one-character pad string.\<close>

definition padStart :: "nat \<Rightarrow> char \<Rightarrow> string \<Rightarrow> string" where
  "padStart n c s = replicate (n - length s) c @ s"

text \<open>The natural number that a string of decimal digits denotes.\<close>

definition natOfDigits :: "string \<Rightarrow> nat" where
  "natOfDigits ds = foldl (\<lambda>acc c. 10 * acc + digit_val c) 0 ds"

text \<open>\<open>s.match(/\d+$/)\<close>: the longest run of digits that ends the string, if not empty.\<close>

definition match_trailing_digits :: "string \<Rightarrow> string option" where
  "match_trailing_digits s =
     (let m = rev (takeWhile is_digit (rev s)) in if m = [] then None else Some m)"

text \<open>
  The number the client reads back from the last invoice or return number:
  \<open>parseInt(match[0], 10)\<close> if the number ends in digits, and \<open>0\<close> if not.
\<close>

definition lastNumberOf :: "(string \<Rightarrow> 'n::zero) \<Rightarrow> string \<Rightarrow> 'n" where
  "lastNumberOf parseInt s =
     (case match_trailing_digits s of None \<Rightarrow> 0 | Some m \<Rightarrow> parseInt m)"

subsection \<open>Dates\<close>

text \<open>
  A \<open>Date\<close> carries its time value and the calendar year and month that
  \<open>getFullYear()\<close> and \<open>getMonth()\<close> read from it (the month counted from 0), natural
  numbers that \<open>String\<close> and the template write in decimal digits.
\<close>

record jsdate =
  getTime :: nat
  getFullYear :: nat
  getMonth :: nat

text \<open>
  The template \<open>`${prefix}-${year}${month}-${String(n).padStart(4, '0')}`\<close>, given the
  string \<open>String(n)\<close>.
\<close>

definition documentNumber :: "string \<Rightarrow> jsdate \<Rightarrow> string \<Rightarrow> string" where
  "documentNumber prefix now numberText =
     (let year = getFullYear now;
          month = padStart 2 (CHR ''0'') (String_nat (getMonth now + 1))
      in prefix @ ''-'' @ String_nat year @ month @ ''-'' @ padStart 4 (CHR ''0'') numberText)"

subsection \<open>Entities\<close>

datatype CustomerClassification = institution | store | individual

datatype ProductCategory = construction | external_facades | decorative

datatype PaymentMethod = cash | credit_card | bank_transfer | check_method

datatype InvoiceStatus = pending | paid | partially_paid | overdue | cancelled

text \<open>
  Each entity is a chain of records: the fields the caller supplies, then the timestamps
  the store adds (a document of the database client), then the numeric identifier that
  \<open>MemStorage\<close> keeps inside the value. The type parameter \<open>'r\<close> is the type of
  references to other records, \<open>nat\<close> in \<open>MemStorage\<close> and \<open>string\<close> in the
  database client, and the type parameter \<open>'a\<close> is the type of amounts.
\<close>

record 'a InsertCustomer =
  c_name :: string
  c_phone :: string
  c_address :: string
  c_classification :: CustomerClassification
  c_discountPercentage :: 'a

record 'a CustomerDoc = "'a InsertCustomer" +
  c_createdAt :: jsdate
  c_updatedAt :: jsdate

record 'a Customer = "'a CustomerDoc" +
  c_id :: nat

record 'a InsertProduct =
  p_name :: string
  p_category :: ProductCategory
  p_colorOrBatch :: string
  p_price :: 'a
  p_stock :: int

record 'a ProductDoc = "'a InsertProduct" +
  p_createdAt :: jsdate
  p_updatedAt :: jsdate

record 'a Product = "'a ProductDoc" +
  p_id :: nat

record ('r, 'a) LineItem =
  li_productId :: 'r
  li_quantity :: int
  li_unitPrice :: 'a
  li_totalPrice :: 'a

record 'a InsertSaleItem = "(nat, 'a) LineItem" +
  si_saleId :: nat

record 'a SaleItem = "'a InsertSaleItem" +
  si_id :: nat

record 'a InsertReturnItem = "(nat, 'a) LineItem" +
  ri_returnId :: nat

record 'a ReturnItem = "'a InsertReturnItem" +
  ri_id :: nat

record ('r, 'a) InsertSale =
  s_invoiceNumber :: string
  s_customerId :: 'r
  s_date :: jsdate
  s_subTotal :: 'a
  s_discountAmount :: 'a
  s_totalAmount :: 'a
  s_paymentMethod :: PaymentMethod
  s_paymentStatus :: InvoiceStatus
  s_notes :: string
  s_createdBy :: string

record ('r, 'a) SaleDoc = "('r, 'a) InsertSale" +
  s_createdAt :: jsdate
  s_updatedAt :: jsdate

record 'a Sale = "(nat, 'a) SaleDoc" +
  s_id :: nat

record ('r, 'a) InsertReturn =
  r_returnNumber :: string
  r_saleId :: 'r
  r_customerId :: 'r
  r_date :: jsdate
  r_totalAmount :: 'a
  r_reason :: string
  r_createdBy :: string

record ('r, 'a) ReturnDoc = "('r, 'a) InsertReturn" +
  r_createdAt :: jsdate
  r_updatedAt :: jsdate

record 'a Return = "(nat, 'a) ReturnDoc" +
  r_id :: nat

record ('r, 'a) InsertPayment =
  pay_saleId :: 'r
  pay_amount :: 'a
  pay_paymentMethod :: PaymentMethod
  pay_date :: jsdate
  pay_reference :: string
  pay_createdBy :: string

record ('r, 'a) PaymentDoc = "('r, 'a) InsertPayment" +
  pay_createdAt :: jsdate

record 'a Payment = "(nat, 'a) PaymentDoc" +
  pay_id :: nat

record ('r, 'a) BalanceDoc =
  cb_customerId :: 'r
  cb_totalSales :: 'a
  cb_totalPayments :: 'a
  cb_totalReturns :: 'a
  cb_balance :: 'a
  cb_updatedAt :: jsdate

record 'a CustomerBalance = "(nat, 'a) BalanceDoc" +
  cb_id :: nat

text \<open>
  A partial update (\<open>Partial<...>\<close>) has an optional value for each field; the field
  \<open>updatedAt\<close> is left out of the patch, since every update overwrites it with
  \<open>new Date()\<close>.
\<close>

definition merge_field :: "'a option \<Rightarrow> 'a \<Rightarrow> 'a" where
  "merge_field new old = (case new of None \<Rightarrow> old | Some v \<Rightarrow> v)"

record ('r, 'a) SalePatch =
  sp_invoiceNumber :: "string option"
  sp_customerId :: "'r option"
  sp_date :: "jsdate option"
  sp_subTotal :: "'a option"
  sp_discountAmount :: "'a option"
  sp_totalAmount :: "'a option"
  sp_paymentMethod :: "PaymentMethod option"
  sp_paymentStatus :: "InvoiceStatus option"
  sp_notes :: "string option"
  sp_createdBy :: "string option"

record 'a ProductPatch =
  pp_name :: "string option"
  pp_category :: "ProductCategory option"
  pp_colorOrBatch :: "string option"
  pp_price :: "'a option"
  pp_stock :: "int option"

definition no_sale_patch :: "('r, 'a) SalePatch" where
  "no_sale_patch = \<lparr>sp_invoiceNumber = None, sp_customerId = None, sp_date = None,
     sp_subTotal = None, sp_discountAmount = None, sp_totalAmount = None,
     sp_paymentMethod = None, sp_paymentStatus = None, sp_notes = None, sp_createdBy = None\<rparr>"

definition no_product_patch :: "'a ProductPatch" where
  "no_product_patch = \<lparr>pp_name = None, pp_category = None, pp_colorOrBatch = None,
     pp_price = None, pp_stock = None\<rparr>"

text \<open>\<open>{...sale, ...data, updatedAt: new Date()}\<close>\<close>

definition patch_sale ::
  "('r, 'a, 'p) SalePatch_scheme \<Rightarrow> jsdate \<Rightarrow> ('r, 'a, 'm) SaleDoc_scheme
     \<Rightarrow> ('r, 'a, 'm) SaleDoc_scheme" where
  "patch_sale d now s = s
     \<lparr>s_invoiceNumber := merge_field (sp_invoiceNumber d) (s_invoiceNumber s),
      s_customerId := merge_field (sp_customerId d) (s_customerId s),
      s_date := merge_field (sp_date d) (s_date s),
      s_subTotal := merge_field (sp_subTotal d) (s_subTotal s),
      s_discountAmount := merge_field (sp_discountAmount d) (s_discountAmount s),
      s_totalAmount := merge_field (sp_totalAmount d) (s_totalAmount s),
      s_paymentMethod := merge_field (sp_paymentMethod d) (s_paymentMethod s),
      s_paymentStatus := merge_field (sp_paymentStatus d) (s_paymentStatus s),
      s_notes := merge_field (sp_notes d) (s_notes s),
      s_createdBy := merge_field (sp_createdBy d) (s_createdBy s),
      s_updatedAt := now\<rparr>"

definition patch_product ::
  "'a ProductPatch \<Rightarrow> jsdate \<Rightarrow> ('a, 'm) ProductDoc_scheme \<Rightarrow> ('a, 'm) ProductDoc_scheme" where
  "patch_product d now p = p
     \<lparr>p_name := merge_field (pp_name d) (p_name p),
      p_category := merge_field (pp_category d) (p_category p),
      p_colorOrBatch := merge_field (pp_colorOrBatch d) (p_colorOrBatch p),
      p_price := merge_field (pp_price d) (p_price p),
      p_stock := merge_field (pp_stock d) (p_stock p),
      p_updatedAt := now\<rparr>"

text \<open>The status rule that both \<open>createPayment\<close> functions apply.\<close>

definition paymentStatusOf :: "'n::{zero, ord} \<Rightarrow> 'n \<Rightarrow> InvoiceStatus" where
  "paymentStatusOf totalPaid totalAmount =
     (if totalPaid \<ge> totalAmount then paid
      else if totalPaid > 0 then partially_paid
      else pending)"

section \<open>The in-memory store (class MemStorage)\<close>

text \<open>
  The fields of the class that hold the six entity types, their line items and the derived
  balances, and the counters the identifiers come from. An operation takes the store and
  returns its result together with the store it leaves behind.
\<close>

record 'a MemStorage =
  customersMap :: "(nat \<times> 'a Customer) list"
  productsMap :: "(nat \<times> 'a Product) list"
  salesMap :: "(nat \<times> 'a Sale) list"
  saleItemsMap :: "(nat \<times> 'a SaleItem list) list"
  returnsMap :: "(nat \<times> 'a Return) list"
  returnItemsMap :: "(nat \<times> 'a ReturnItem list) list"
  paymentsMap :: "(nat \<times> 'a Payment) list"
  customerBalancesMap :: "(nat \<times> 'a CustomerBalance) list"
  customerIdCounter :: nat
  productIdCounter :: nat
  saleIdCounter :: nat
  saleItemIdCounter :: nat
  returnIdCounter :: nat
  returnItemIdCounter :: nat
  paymentIdCounter :: nat

text \<open>The store that the constructor builds.\<close>

definition newMemStorage :: "string MemStorage" where
  "newMemStorage = \<lparr>customersMap = [], productsMap = [], salesMap = [], saleItemsMap = [],
     returnsMap = [], returnItemsMap = [], paymentsMap = [], customerBalancesMap = [],
     customerIdCounter = 1, productIdCounter = 1, saleIdCounter = 1, saleItemIdCounter = 1,
     returnIdCounter = 1, returnItemIdCounter = 1, paymentIdCounter = 1\<rparr>"

definition deleteCustomer :: "nat \<Rightarrow> string MemStorage \<Rightarrow> bool \<times> string MemStorage" where
  "deleteCustomer i st =
     (let exists = (map_of (customersMap st) i \<noteq> None)
      in if exists then (True, st\<lparr>customersMap := AList.delete i (customersMap st)\<rparr>)
         else (False, st))"

definition deleteProduct :: "nat \<Rightarrow> string MemStorage \<Rightarrow> bool \<times> string MemStorage" where
  "deleteProduct i st =
     (let exists = (map_of (productsMap st) i \<noteq> None)
      in if exists then (True, st\<lparr>productsMap := AList.delete i (productsMap st)\<rparr>)
         else (False, st))"

definition getPaymentsBySale :: "nat \<Rightarrow> string MemStorage \<Rightarrow> string Payment list" where
  "getPaymentsBySale saleId st =
     filter (\<lambda>payment. pay_saleId payment = saleId) (map snd (paymentsMap st))"

definition updateCustomerBalance ::
  "(string \<Rightarrow> 'n::{zero, plus, minus}) \<Rightarrow> ('n \<Rightarrow> string) \<Rightarrow> nat \<Rightarrow> jsdate \<Rightarrow> string MemStorage
     \<Rightarrow> string CustomerBalance \<times> string MemStorage" where
  "updateCustomerBalance Number String customerId now st =
     (let customerSales = filter (\<lambda>sale. s_customerId sale = customerId) (map snd (salesMap st));
          totalSales = foldl (\<lambda>sum sale. sum + Number (s_totalAmount sale)) 0 customerSales;
          customerReturns =
            filter (\<lambda>returnItem. r_customerId returnItem = customerId) (map snd (returnsMap st));
          totalReturns =
            foldl (\<lambda>sum returnItem. sum + Number (r_totalAmount returnItem)) 0 customerReturns;
          totalPayments =
            foldl (\<lambda>total sale. total +
                     foldl (\<lambda>sum payment. sum + Number (pay_amount payment)) 0
                       (getPaymentsBySale (s_id sale) st))
              0 customerSales;
          balance = totalSales - totalPayments - totalReturns;
          customerBalance = \<lparr>cb_customerId = customerId, cb_totalSales = String totalSales,
            cb_totalPayments = String totalPayments, cb_totalReturns = String totalReturns,
            cb_balance = String balance, cb_updatedAt = now, cb_id = customerId\<rparr>
      in (customerBalance,
          st\<lparr>customerBalancesMap :=
               AList.update customerId customerBalance (customerBalancesMap st)\<rparr>))"

definition createSale ::
  "(string \<Rightarrow> 'n::{zero, plus, minus}) \<Rightarrow> ('n \<Rightarrow> string) \<Rightarrow> (nat, string) InsertSale \<Rightarrow> jsdate
     \<Rightarrow> string MemStorage \<Rightarrow> string Sale \<times> string MemStorage" where
  "createSale Number String insertSale now st =
     (let i = saleIdCounter st;
          st1 = st\<lparr>saleIdCounter := i + 1\<rparr>;
          invoiceNumber = documentNumber ''INV'' now (String_nat i);
          sale = \<lparr>s_invoiceNumber = invoiceNumber, s_customerId = s_customerId insertSale,
            s_date = s_date insertSale, s_subTotal = s_subTotal insertSale,
            s_discountAmount = s_discountAmount insertSale,
            s_totalAmount = s_totalAmount insertSale,
            s_paymentMethod = s_paymentMethod insertSale,
            s_paymentStatus = s_paymentStatus insertSale, s_notes = s_notes insertSale,
            s_createdBy = s_createdBy insertSale, s_createdAt = now, s_updatedAt = now,
            s_id = i\<rparr>;
          st2 = st1\<lparr>salesMap := AList.update i sale (salesMap st1)\<rparr>;
          st3 = st2\<lparr>saleItemsMap := AList.update i [] (saleItemsMap st2)\<rparr>
      in (sale, snd (updateCustomerBalance Number String (s_customerId sale) now st3)))"

text \<open>
  \<open>updateSale\<close> takes a \<open>Partial<Omit<Sale, 'id'>>\<close>: besides the fields of a
  sale patch it may carry \<open>createdAt\<close>. The balance is recomputed for the customer of the
  sale as it was before the update.
\<close>

record 'a MemSalePatch = "(nat, 'a) SalePatch" +
  sp_createdAt :: "jsdate option"

definition updateSale ::
  "(string \<Rightarrow> 'n::{zero, plus, minus}) \<Rightarrow> ('n \<Rightarrow> string) \<Rightarrow> nat \<Rightarrow> string MemSalePatch \<Rightarrow> jsdate
     \<Rightarrow> string MemStorage \<Rightarrow> string Sale option \<times> string MemStorage" where
  "updateSale Number String i saleData now st =
     (case map_of (salesMap st) i of
        None \<Rightarrow> (None, st)
      | Some sale \<Rightarrow>
          (let updatedSale =
                 patch_sale saleData now
                   (sale\<lparr>s_createdAt := merge_field (sp_createdAt saleData) (s_createdAt sale)\<rparr>);
               st1 = st\<lparr>salesMap := AList.update i updatedSale (salesMap st)\<rparr>
           in (Some updatedSale,
               snd (updateCustomerBalance Number String (s_customerId sale) now st1))))"

definition getSaleItems :: "nat \<Rightarrow> string MemStorage \<Rightarrow> string SaleItem list" where
  "getSaleItems saleId st = (case map_of (saleItemsMap st) saleId of None \<Rightarrow> [] | Some xs \<Rightarrow> xs)"

definition getReturnItems :: "nat \<Rightarrow> string MemStorage \<Rightarrow> string ReturnItem list" where
  "getReturnItems returnId st =
     (case map_of (returnItemsMap st) returnId of None \<Rightarrow> [] | Some xs \<Rightarrow> xs)"

definition addSaleItem :: "string InsertSaleItem \<Rightarrow> jsdate \<Rightarrow> string MemStorage \<Rightarrow> string SaleItem \<times> string MemStorage" where
  "addSaleItem insertSaleItem now st =
     (let i = saleItemIdCounter st;
          st1 = st\<lparr>saleItemIdCounter := i + 1\<rparr>;
          saleItem = \<lparr>li_productId = li_productId insertSaleItem,
            li_quantity = li_quantity insertSaleItem, li_unitPrice = li_unitPrice insertSaleItem,
            li_totalPrice = li_totalPrice insertSaleItem, si_saleId = si_saleId insertSaleItem,
            si_id = i\<rparr>;
          saleItems = getSaleItems (si_saleId saleItem) st1 @ [saleItem];
          st2 = st1\<lparr>saleItemsMap := AList.update (si_saleId saleItem) saleItems (saleItemsMap st1)\<rparr>
      in case map_of (productsMap st2) (li_productId saleItem) of
           None \<Rightarrow> (saleItem, st2)
         | Some product \<Rightarrow>
             (let updatedProduct = product
                    \<lparr>p_stock := p_stock product - li_quantity saleItem, p_updatedAt := now\<rparr>
              in (saleItem,
                  st2\<lparr>productsMap := AList.update (p_id product) updatedProduct (productsMap st2)\<rparr>)))"

definition addReturnItem ::
  "string InsertReturnItem \<Rightarrow> jsdate \<Rightarrow> string MemStorage \<Rightarrow> string ReturnItem \<times> string MemStorage" where
  "addReturnItem insertReturnItem now st =
     (let i = returnItemIdCounter st;
          st1 = st\<lparr>returnItemIdCounter := i + 1\<rparr>;
          returnItem = \<lparr>li_productId = li_productId insertReturnItem,
            li_quantity = li_quantity insertReturnItem,
            li_unitPrice = li_unitPrice insertReturnItem,
            li_totalPrice = li_totalPrice insertReturnItem,
            ri_returnId = ri_returnId insertReturnItem, ri_id = i\<rparr>;
          returnItems = getReturnItems (ri_returnId returnItem) st1 @ [returnItem];
          st2 = st1\<lparr>returnItemsMap :=
                  AList.update (ri_returnId returnItem) returnItems (returnItemsMap st1)\<rparr>
      in case map_of (productsMap st2) (li_productId returnItem) of
           None \<Rightarrow> (returnItem, st2)
         | Some product \<Rightarrow>
             (let updatedProduct = product
                    \<lparr>p_stock := p_stock product + li_quantity returnItem, p_updatedAt := now\<rparr>
              in (returnItem,
                  st2\<lparr>productsMap := AList.update (p_id product) updatedProduct (productsMap st2)\<rparr>)))"

definition createPayment ::
  "(string \<Rightarrow> 'n::{zero, plus, minus, ord}) \<Rightarrow> ('n \<Rightarrow> string) \<Rightarrow> (nat, string) InsertPayment \<Rightarrow> jsdate
     \<Rightarrow> string MemStorage \<Rightarrow> string Payment \<times> string MemStorage" where
  "createPayment Number String insertPayment now st =
     (let i = paymentIdCounter st;
          st1 = st\<lparr>paymentIdCounter := i + 1\<rparr>;
          payment = \<lparr>pay_saleId = pay_saleId insertPayment, pay_amount = pay_amount insertPayment,
            pay_paymentMethod = pay_paymentMethod insertPayment, pay_date = pay_date insertPayment,
            pay_reference = pay_reference insertPayment,
            pay_createdBy = pay_createdBy insertPayment, pay_createdAt = now, pay_id = i\<rparr>;
          st2 = st1\<lparr>paymentsMap := AList.update i payment (paymentsMap st1)\<rparr>
      in case map_of (salesMap st2) (pay_saleId payment) of
           None \<Rightarrow> (payment, st2)
         | Some sale \<Rightarrow>
             (let payments = getPaymentsBySale (pay_saleId payment) st2;
                  totalPaid = foldl (\<lambda>sum p. sum + Number (pay_amount p)) 0 payments;
                  paymentStatus = paymentStatusOf totalPaid (Number (s_totalAmount sale));
                  updatedSale = sale\<lparr>s_paymentStatus := paymentStatus, s_updatedAt := now\<rparr>;
                  st3 = st2\<lparr>salesMap := AList.update (s_id sale) updatedSale (salesMap st2)\<rparr>
              in (payment, snd (updateCustomerBalance Number String (s_customerId sale) now st3))))"

section \<open>The document-database client\<close>

text \<open>
  The database holds one collection per entity type, the line items of a sale or return in
  a subcollection under its document, and the balances in a collection keyed by customer.
  The operations of the database library are modelled as follows: \<open>addDoc\<close> and
  \<open>setDoc\<close> write a document under an identifier (the one that \<open>addDoc\<close> generates
  is an argument of the operation that calls it), \<open>updateDoc\<close> merges fields into an
  existing document and is rejected when there is none, \<open>deleteDoc\<close> removes a document,
  absent or not. A rejected call ends the operation with \<open>Inl\<close>. The functions of the
  client that share a name with a method of \<open>MemStorage\<close> carry the prefix \<open>db_\<close>.
\<close>

datatype store_error = NotFound

record 'a Firestore =
  customers :: "(string \<times> 'a CustomerDoc) list"
  products :: "(string \<times> 'a ProductDoc) list"
  sales :: "(string \<times> (string, 'a) SaleDoc) list"
  saleItems :: "(string \<times> (string \<times> (string, 'a) LineItem) list) list"
  returns :: "(string \<times> (string, 'a) ReturnDoc) list"
  returnItems :: "(string \<times> (string \<times> (string, 'a) LineItem) list) list"
  payments :: "(string \<times> (string, 'a) PaymentDoc) list"
  customerBalances :: "(string \<times> (string, 'a) BalanceDoc) list"

definition emptyFirestore :: "'n Firestore" where
  "emptyFirestore = \<lparr>customers = [], products = [], sales = [], saleItems = [], returns = [],
     returnItems = [], payments = [], customerBalances = []\<rparr>"

text \<open>
  \<open>query(c, orderBy("createdAt", "desc"), limit(1))\<close>: the document created last; among
  documents of one creation time the database orders by document identifier, descending.
\<close>

definition newer :: "('d \<Rightarrow> jsdate) \<Rightarrow> string \<times> 'd \<Rightarrow> string \<times> 'd \<Rightarrow> bool" where
  "newer createdAt x y =
     (getTime (createdAt (snd y)) < getTime (createdAt (snd x))
      \<or> (getTime (createdAt (snd y)) = getTime (createdAt (snd x)) \<and> fst y < fst x))"

fun latestDoc :: "('d \<Rightarrow> jsdate) \<Rightarrow> (string \<times> 'd) list \<Rightarrow> (string \<times> 'd) option" where
  "latestDoc createdAt [] = None"
| "latestDoc createdAt (x # xs) =
     (case latestDoc createdAt xs of
        None \<Rightarrow> Some x
      | Some y \<Rightarrow> if newer createdAt x y then Some x else Some y)"

definition db_deleteCustomer :: "string \<Rightarrow> 'n Firestore \<Rightarrow> unit \<times> 'n Firestore" where
  "db_deleteCustomer i st = ((), st\<lparr>customers := AList.delete i (customers st)\<rparr>)"

definition db_deleteProduct :: "string \<Rightarrow> 'n Firestore \<Rightarrow> unit \<times> 'n Firestore" where
  "db_deleteProduct i st = ((), st\<lparr>products := AList.delete i (products st)\<rparr>)"

definition db_getProduct :: "string \<Rightarrow> 'n Firestore \<Rightarrow> 'n ProductDoc option" where
  "db_getProduct i st = map_of (products st) i"

definition db_updateProduct ::
  "string \<Rightarrow> 'n ProductPatch \<Rightarrow> jsdate \<Rightarrow> 'n Firestore \<Rightarrow> store_error + 'n Firestore" where
  "db_updateProduct i data now st =
     (case map_of (products st) i of
        None \<Rightarrow> Inl NotFound
      | Some p \<Rightarrow> Inr (st\<lparr>products := AList.update i (patch_product data now p) (products st)\<rparr>))"

text \<open>
  \<open>getSale\<close> also attaches the customer, the items and their products to what it returns;
  its callers below read only fields of the sale document itself.
\<close>

definition db_getSale :: "string \<Rightarrow> 'n Firestore \<Rightarrow> (string, 'n) SaleDoc option" where
  "db_getSale i st = map_of (sales st) i"

text \<open>
  The documents of the subcollections \<open>sales/{id}/items\<close> and \<open>returns/{id}/items\<close>
  (\<open>getDocs(collection(db, "sales", id, "items"))\<close>).
\<close>

definition db_getSaleItems :: "string \<Rightarrow> 'n Firestore \<Rightarrow> (string \<times> (string, 'n) LineItem) list" where
  "db_getSaleItems saleId st = (case map_of (saleItems st) saleId of None \<Rightarrow> [] | Some xs \<Rightarrow> xs)"


definition db_getPaymentsBySale :: "string \<Rightarrow> 'n Firestore \<Rightarrow> (string \<times> (string, 'n) PaymentDoc) list" where
  "db_getPaymentsBySale saleId st = filter (\<lambda>(i, d). pay_saleId d = saleId) (payments st)"

text \<open>
  \<open>x || 0\<close> for a number \<open>x\<close>: the number itself unless it is falsy, and the falsy
  numbers are \<open>0\<close>, \<open>-0\<close> and \<open>NaN\<close>, those that are neither below nor above \<open>0\<close>.
\<close>

definition orZero :: "'n::{zero, ord} \<Rightarrow> 'n" where
  "orZero x = (if x < 0 \<or> 0 < x then x else 0)"

definition db_updateCustomerBalance ::
  "string \<Rightarrow> jsdate \<Rightarrow> ('n::{zero, plus, minus, ord}) Firestore \<Rightarrow> 'n Firestore" where
  "db_updateCustomerBalance customerId now st =
     (let salesSnapshot = filter (\<lambda>(i, d). s_customerId d = customerId) (sales st);
          totalSales = foldl (\<lambda>sum (i, d). sum + orZero (s_totalAmount d)) 0 salesSnapshot;
          returnsSnapshot = filter (\<lambda>(i, d). r_customerId d = customerId) (returns st);
          totalReturns = foldl (\<lambda>sum (i, d). sum + orZero (r_totalAmount d)) 0 returnsSnapshot;
          totalPayments =
            foldl (\<lambda>total (i, d). total +
                     foldl (\<lambda>sum (j, payment). sum + pay_amount payment) 0
                       (db_getPaymentsBySale i st))
              0 salesSnapshot;
          balance = totalSales - totalPayments - totalReturns
      in case map_of (customerBalances st) customerId of
           Some b \<Rightarrow>
             st\<lparr>customerBalances := AList.update customerId
                  (b\<lparr>cb_totalSales := totalSales, cb_totalPayments := totalPayments,
                     cb_totalReturns := totalReturns, cb_balance := balance,
                     cb_updatedAt := now\<rparr>)
                  (customerBalances st)\<rparr>
         | None \<Rightarrow>
             st\<lparr>customerBalances := AList.update customerId
                  \<lparr>cb_customerId = customerId, cb_totalSales = totalSales,
                   cb_totalPayments = totalPayments, cb_totalReturns = totalReturns,
                   cb_balance = balance, cb_updatedAt = now\<rparr>
                  (customerBalances st)\<rparr>)"

text \<open>
  The loop over the new items of a sale in \<open>createSale\<close> and \<open>updateSale\<close>; each item
  comes with the identifier that \<open>addDoc\<close> gives its document.
\<close>

fun db_addSaleItems ::
  "string \<Rightarrow> (string \<times> (string, 'n) LineItem) list \<Rightarrow> jsdate \<Rightarrow> 'n Firestore \<Rightarrow> store_error + 'n Firestore" where
  "db_addSaleItems saleId [] now st = Inr st"
| "db_addSaleItems saleId ((itemId, item) # rest) now st =
     (let st1 = st\<lparr>saleItems :=
                  AList.update saleId (AList.update itemId item (db_getSaleItems saleId st))
                    (saleItems st)\<rparr>
      in case db_getProduct (li_productId item) st1 of
           None \<Rightarrow> db_addSaleItems saleId rest now st1
         | Some product \<Rightarrow>
             (case db_updateProduct (li_productId item)
                     (no_product_patch\<lparr>pp_stock := Some (p_stock product - li_quantity item)\<rparr>)
                     now st1 of
                Inl e \<Rightarrow> Inl e
              | Inr st2 \<Rightarrow> db_addSaleItems saleId rest now st2))"

text \<open>The loop of \<open>updateSale\<close> over the items the sale had.\<close>

fun db_removeSaleItems ::
  "string \<Rightarrow> (string \<times> (string, 'n) LineItem) list \<Rightarrow> jsdate \<Rightarrow> 'n Firestore \<Rightarrow> store_error + 'n Firestore" where
  "db_removeSaleItems saleId [] now st = Inr st"
| "db_removeSaleItems saleId ((itemId, item) # rest) now st =
     (case (case db_getProduct (li_productId item) st of
              None \<Rightarrow> Inr st
            | Some product \<Rightarrow>
                db_updateProduct (li_productId item)
                  (no_product_patch\<lparr>pp_stock := Some (p_stock product + li_quantity item)\<rparr>)
                  now st) of
        Inl e \<Rightarrow> Inl e
      | Inr st1 \<Rightarrow>
          db_removeSaleItems saleId rest now
            (st1\<lparr>saleItems :=
                   AList.update saleId (AList.delete itemId (db_getSaleItems saleId st1))
                     (saleItems st1)\<rparr>))"


definition db_createSale ::
  "(string \<Rightarrow> 'n::{zero, one, plus, minus, ord}) \<Rightarrow> ('n \<Rightarrow> string) \<Rightarrow> (string, 'n) InsertSale
     \<Rightarrow> (string \<times> (string, 'n) LineItem) list \<Rightarrow> string \<Rightarrow> jsdate \<Rightarrow> 'n Firestore
     \<Rightarrow> store_error + string \<times> 'n Firestore" where
  "db_createSale parseInt String data items newId now st =
     (let lastNumber = (case latestDoc s_createdAt (sales st) of
                          None \<Rightarrow> 0
                        | Some (i, d) \<Rightarrow> lastNumberOf parseInt (s_invoiceNumber d));
          saleData = \<lparr>s_invoiceNumber = documentNumber ''INV'' now (String (lastNumber + 1)),
            s_customerId = s_customerId data, s_date = s_date data, s_subTotal = s_subTotal data,
            s_discountAmount = s_discountAmount data, s_totalAmount = s_totalAmount data,
            s_paymentMethod = s_paymentMethod data, s_paymentStatus = s_paymentStatus data,
            s_notes = s_notes data, s_createdBy = s_createdBy data,
            s_createdAt = now, s_updatedAt = now\<rparr>;
          st1 = st\<lparr>sales := AList.update newId saleData (sales st)\<rparr>
      in case db_addSaleItems newId items now st1 of
           Inl e \<Rightarrow> Inl e
         | Inr st2 \<Rightarrow> Inr (newId, db_updateCustomerBalance (s_customerId data) now st2))"


definition db_updateSale ::
  "string \<Rightarrow> (string, 'n::{zero, plus, minus, ord}) SalePatch \<Rightarrow> (string \<times> (string, 'n) LineItem) list option \<Rightarrow> jsdate \<Rightarrow> 'n Firestore
     \<Rightarrow> store_error + 'n Firestore" where
  "db_updateSale i data items now st =
     (case map_of (sales st) i of
        None \<Rightarrow> Inl NotFound
      | Some d \<Rightarrow>
          (let st1 = st\<lparr>sales := AList.update i (patch_sale data now d) (sales st)\<rparr>
           in case (case items of
                      None \<Rightarrow> Inr st1
                    | Some newItems \<Rightarrow>
                        (case db_getSale i st1 of
                           None \<Rightarrow> Inr st1
                         | Some sale \<Rightarrow>
                             (case db_removeSaleItems i (db_getSaleItems i st1) now st1 of
                                Inl e \<Rightarrow> Inl e
                              | Inr st2 \<Rightarrow> db_addSaleItems i newItems now st2))) of
                Inl e \<Rightarrow> Inl e
              | Inr st3 \<Rightarrow>
                  (case db_getSale i st3 of
                     None \<Rightarrow> Inr st3
                   | Some sale \<Rightarrow> Inr (db_updateCustomerBalance (s_customerId sale) now st3))))"

text \<open>
  The database hands out the documents of a collection in an order of its own (that of their
  identifiers), so that a document stored by \<open>addDoc\<close> under a fresh identifier takes a
  place among the others that the code does not choose. \<open>createPayment\<close> sums over the
  payments of the sale right after it has added the new one: there the place of the new
  document is an argument of the operation, as its identifier is. In the other operations a
  new document goes to the end of the list, no sum over it being part of a result below.
\<close>

definition addDocAt :: "nat \<Rightarrow> 'k \<Rightarrow> 'v \<Rightarrow> ('k \<times> 'v) list \<Rightarrow> ('k \<times> 'v) list" where
  "addDocAt place k v al =
     (if k \<in> fst ` set al then AList.update k v al
      else take place al @ (k, v) # drop place al)"

definition db_createPayment ::
  "(string, 'n::{zero, plus, minus, ord}) InsertPayment \<Rightarrow> string \<Rightarrow> nat \<Rightarrow> jsdate \<Rightarrow> 'n Firestore
     \<Rightarrow> store_error + string \<times> 'n Firestore" where
  "db_createPayment data newId place now st =
     (let paymentData = \<lparr>pay_saleId = pay_saleId data, pay_amount = pay_amount data,
            pay_paymentMethod = pay_paymentMethod data, pay_date = pay_date data,
            pay_reference = pay_reference data, pay_createdBy = pay_createdBy data,
            pay_createdAt = now\<rparr>;
          st1 = st\<lparr>payments := addDocAt place newId paymentData (payments st)\<rparr>
      in case db_getSale (pay_saleId data) st1 of
           None \<Rightarrow> Inr (newId, st1)
         | Some sale \<Rightarrow>
             (let paymentDocs = db_getPaymentsBySale (pay_saleId data) st1;
                  totalPaid = foldl (\<lambda>sum (j, payment). sum + pay_amount payment) 0 paymentDocs;
                  paymentStatus = paymentStatusOf totalPaid (s_totalAmount sale)
              in case db_updateSale (pay_saleId data)
                        (no_sale_patch\<lparr>sp_paymentStatus := Some paymentStatus\<rparr>) None now st1 of
                   Inl e \<Rightarrow> Inl e
                 | Inr st2 \<Rightarrow> Inr (newId, db_updateCustomerBalance (s_customerId sale) now st2)))"

section \<open>What the claims speak about\<close>

subsection \<open>Sums over the records of one customer\<close>

text \<open>
  A sum as \<open>reduce((sum, x) => sum + x, 0)\<close> takes it: from \<open>0\<close>, one number after the
  other in the order of the list.
\<close>

definition jsSum :: "('n::{zero, plus}) list \<Rightarrow> 'n" where
  "jsSum xs = foldl (+) 0 xs"

text \<open>
  The sum of the amounts of the stored payments that reference a sale, in the order of the
  store. \<open>MemStorage\<close> reads each amount with \<open>Number\<close>.
\<close>

definition paidOnSale :: "(string \<Rightarrow> 'n::{zero, plus}) \<Rightarrow> nat \<Rightarrow> string MemStorage \<Rightarrow> 'n" where
  "paidOnSale Number saleId st =
     jsSum (map (Number \<circ> pay_amount)
       (filter (\<lambda>p. pay_saleId p = saleId) (map snd (paymentsMap st))))"

definition db_paidOnSale :: "string \<Rightarrow> ('n::{zero, plus}) Firestore \<Rightarrow> 'n" where
  "db_paidOnSale saleId db =
     jsSum (map (pay_amount \<circ> snd) (filter (\<lambda>(j, p). pay_saleId p = saleId) (payments db)))"

text \<open>
  The sums over the sales of a customer and over the returns of a customer, in the order of
  the store, and the sum over the sales of the customer of what is paid on each sale. The
  database client takes a total that is \<open>0\<close> or \<open>NaN\<close> for \<open>0\<close>.
\<close>

definition sumOfSales :: "(string \<Rightarrow> 'n::{zero, plus}) \<Rightarrow> nat \<Rightarrow> string MemStorage \<Rightarrow> 'n" where
  "sumOfSales Number c st =
     jsSum (map (Number \<circ> s_totalAmount)
       (filter (\<lambda>s. s_customerId s = c) (map snd (salesMap st))))"

definition sumOfReturns :: "(string \<Rightarrow> 'n::{zero, plus}) \<Rightarrow> nat \<Rightarrow> string MemStorage \<Rightarrow> 'n" where
  "sumOfReturns Number c st =
     jsSum (map (Number \<circ> r_totalAmount)
       (filter (\<lambda>r. r_customerId r = c) (map snd (returnsMap st))))"

definition sumOfPayments :: "(string \<Rightarrow> 'n::{zero, plus}) \<Rightarrow> nat \<Rightarrow> string MemStorage \<Rightarrow> 'n" where
  "sumOfPayments Number c st =
     jsSum (map (\<lambda>s. paidOnSale Number (s_id s) st)
       (filter (\<lambda>s. s_customerId s = c) (map snd (salesMap st))))"

definition db_sumOfSales :: "string \<Rightarrow> ('n::{zero, plus, ord}) Firestore \<Rightarrow> 'n" where
  "db_sumOfSales c db =
     jsSum (map (\<lambda>(i, d). orZero (s_totalAmount d))
       (filter (\<lambda>(i, d). s_customerId d = c) (sales db)))"

definition db_sumOfReturns :: "string \<Rightarrow> ('n::{zero, plus, ord}) Firestore \<Rightarrow> 'n" where
  "db_sumOfReturns c db =
     jsSum (map (\<lambda>(i, d). orZero (r_totalAmount d))
       (filter (\<lambda>(i, d). r_customerId d = c) (returns db)))"

definition db_sumOfPayments :: "string \<Rightarrow> ('n::{zero, plus}) Firestore \<Rightarrow> 'n" where
  "db_sumOfPayments c db =
     jsSum (map (\<lambda>(i, d). db_paidOnSale i db)
       (filter (\<lambda>(i, d). s_customerId d = c) (sales db)))"

text \<open>The sum of the totals of the sales of a customer, each total taken as it is stored.\<close>

definition db_sumOfTotals :: "string \<Rightarrow> ('n::{zero, plus}) Firestore \<Rightarrow> 'n" where
  "db_sumOfTotals c db =
     jsSum (map (\<lambda>(i, d). s_totalAmount d) (filter (\<lambda>(i, d). s_customerId d = c) (sales db)))"

text \<open>
  In \<open>MemStorage\<close> a sale carries its identifier inside the value as well; every
  sale is stored under its own identifier, once.
\<close>

definition wf_sales :: "'a MemStorage \<Rightarrow> bool" where
  "wf_sales st = (distinct (map fst (salesMap st)) \<and> list_all (\<lambda>(k, s). s_id s = k) (salesMap st))"

subsection \<open>Numbers for the examples\<close>

text \<open>
  The examples hold whole amounts, on which the arithmetic of JavaScript is that of the
  integers, written in decimal digits: \<open>Number\<close> and \<open>parseInt\<close> of a string of digits,
  and \<open>String\<close> of a whole number.
\<close>

definition exNumber :: "string \<Rightarrow> int" where
  "exNumber s = int (natOfDigits s)"

definition exString :: "int \<Rightarrow> string" where
  "exString n = (if n < 0 then CHR ''-'' # String_nat (nat (- n)) else String_nat (nat n))"

text \<open>
  The whole numbers together with \<open>NaN\<close>: a sum or difference with \<open>NaN\<close> is \<open>NaN\<close>,
  and every comparison with \<open>NaN\<close> is false.
\<close>

datatype jsnumber = NaN | Whole int

instantiation jsnumber :: "{zero, one, plus, minus, ord}"
begin

definition zero_jsnumber_def: "0 = Whole 0"

definition one_jsnumber_def: "1 = Whole 1"

definition plus_jsnumber_def:
  "a + b = (case a of NaN \<Rightarrow> NaN | Whole x \<Rightarrow> (case b of NaN \<Rightarrow> NaN | Whole y \<Rightarrow> Whole (x + y)))"

definition minus_jsnumber_def:
  "a - b = (case a of NaN \<Rightarrow> NaN | Whole x \<Rightarrow> (case b of NaN \<Rightarrow> NaN | Whole y \<Rightarrow> Whole (x - y)))"

definition less_eq_jsnumber_def:
  "a \<le> b = (case a of NaN \<Rightarrow> False | Whole x \<Rightarrow> (case b of NaN \<Rightarrow> False | Whole y \<Rightarrow> x \<le> y))"

definition less_jsnumber_def:
  "a < b = (case a of NaN \<Rightarrow> False | Whole x \<Rightarrow> (case b of NaN \<Rightarrow> False | Whole y \<Rightarrow> x < y))"

instance ..

end

subsection \<open>Example records and stores\<close>

definition day0 :: jsdate where
  "day0 = \<lparr>getTime = 1000, getFullYear = 2024, getMonth = 0\<rparr>"

definition day1 :: jsdate where
  "day1 = \<lparr>getTime = 2000, getFullYear = 2024, getMonth = 0\<rparr>"

text \<open>Records of the database client, with amounts that are numbers.\<close>

definition exInsertSale :: "string \<Rightarrow> 'n::zero \<Rightarrow> (string, 'n) InsertSale" where
  "exInsertSale c amt = \<lparr>s_invoiceNumber = [], s_customerId = c, s_date = day0,
     s_subTotal = amt, s_discountAmount = 0, s_totalAmount = amt, s_paymentMethod = cash,
     s_paymentStatus = pending, s_notes = [], s_createdBy = ''u''\<rparr>"

definition exSaleDoc :: "string \<Rightarrow> string \<Rightarrow> 'n::zero \<Rightarrow> (string, 'n) SaleDoc" where
  "exSaleDoc num c amt = \<lparr>s_invoiceNumber = num, s_customerId = c, s_date = day0,
     s_subTotal = amt, s_discountAmount = 0, s_totalAmount = amt, s_paymentMethod = cash,
     s_paymentStatus = pending, s_notes = [], s_createdBy = ''u'',
     s_createdAt = day0, s_updatedAt = day0\<rparr>"

definition exCustomerDoc :: "string \<Rightarrow> ('n::zero) CustomerDoc" where
  "exCustomerDoc n = \<lparr>c_name = n, c_phone = [], c_address = [], c_classification = store,
     c_discountPercentage = 0, c_createdAt = day0, c_updatedAt = day0\<rparr>"

definition exProductDoc :: "string \<Rightarrow> int \<Rightarrow> int ProductDoc" where
  "exProductDoc n k = \<lparr>p_name = n, p_category = decorative, p_colorOrBatch = [], p_price = 10,
     p_stock = k, p_createdAt = day0, p_updatedAt = day0\<rparr>"

definition exLineItem :: "string \<Rightarrow> int \<Rightarrow> (string, int) LineItem" where
  "exLineItem p q = \<lparr>li_productId = p, li_quantity = q, li_unitPrice = 10,
     li_totalPrice = 10 * q\<rparr>"


definition exSale :: "nat \<Rightarrow> string \<Rightarrow> nat \<Rightarrow> string \<Rightarrow> string Sale" where
  "exSale i num c amt = \<lparr>s_invoiceNumber = num, s_customerId = c, s_date = day0,
     s_subTotal = amt, s_discountAmount = ''0'', s_totalAmount = amt, s_paymentMethod = cash,
     s_paymentStatus = pending, s_notes = [], s_createdBy = ''u'',
     s_createdAt = day0, s_updatedAt = day0, s_id = i\<rparr>"

definition exCustomer :: "nat \<Rightarrow> string \<Rightarrow> string Customer" where
  "exCustomer i n = \<lparr>c_name = n, c_phone = [], c_address = [], c_classification = store,
     c_discountPercentage = ''0'', c_createdAt = day0, c_updatedAt = day0, c_id = i\<rparr>"

definition exProduct :: "nat \<Rightarrow> string \<Rightarrow> int \<Rightarrow> string Product" where
  "exProduct i n k = \<lparr>p_name = n, p_category = decorative, p_colorOrBatch = [], p_price = ''10'',
     p_stock = k, p_createdAt = day0, p_updatedAt = day0, p_id = i\<rparr>"

text \<open>Records of either store.\<close>

definition exInsertPayment :: "'r \<Rightarrow> 'a \<Rightarrow> ('r, 'a) InsertPayment" where
  "exInsertPayment s a = \<lparr>pay_saleId = s, pay_amount = a, pay_paymentMethod = cash,
     pay_date = day0, pay_reference = [], pay_createdBy = ''u''\<rparr>"

definition exPaymentDoc :: "'r \<Rightarrow> 'a \<Rightarrow> ('r, 'a) PaymentDoc" where
  "exPaymentDoc s a = \<lparr>pay_saleId = s, pay_amount = a, pay_paymentMethod = cash,
     pay_date = day0, pay_reference = [], pay_createdBy = ''u'', pay_createdAt = day0\<rparr>"

definition exPayment :: "nat \<Rightarrow> nat \<Rightarrow> 'a \<Rightarrow> 'a Payment" where
  "exPayment i s a = \<lparr>pay_saleId = s, pay_amount = a, pay_paymentMethod = cash,
     pay_date = day0, pay_reference = [], pay_createdBy = ''u'', pay_createdAt = day0,
     pay_id = i\<rparr>"

definition exReturnDoc :: "'r \<Rightarrow> 'r \<Rightarrow> 'a \<Rightarrow> ('r, 'a) ReturnDoc" where
  "exReturnDoc s c amt = \<lparr>r_returnNumber = ''RET-202401-0001'', r_saleId = s,
     r_customerId = c, r_date = day0, r_totalAmount = amt, r_reason = [], r_createdBy = ''u'',
     r_createdAt = day0, r_updatedAt = day0\<rparr>"

definition exReturn :: "nat \<Rightarrow> nat \<Rightarrow> nat \<Rightarrow> 'a \<Rightarrow> 'a Return" where
  "exReturn i s c amt = \<lparr>r_returnNumber = ''RET-202401-0001'', r_saleId = s,
     r_customerId = c, r_date = day0, r_totalAmount = amt, r_reason = [], r_createdBy = ''u'',
     r_createdAt = day0, r_updatedAt = day0, r_id = i\<rparr>"

definition exMem :: "string MemStorage" where
  "exMem = \<lparr>customersMap = [(1, exCustomer 1 ''Ann''), (2, exCustomer 2 ''Bob'')],
     productsMap = [(1, exProduct 1 ''white'' 10), (2, exProduct 2 ''red'' 2)],
     salesMap = [(1, exSale 1 ''INV-202401-0001'' 1 ''30''),
                 (2, exSale 2 ''INV-202401-0002'' 1 ''20''),
                 (3, exSale 3 ''INV-202401-0003'' 2 ''5'')],
     saleItemsMap = [(1, []), (2, []), (3, [])],
     returnsMap = [(1, exReturn 1 1 1 ''4'')],
     returnItemsMap = [(1, [])],
     paymentsMap = [(1, exPayment 1 1 ''10''), (2, exPayment 2 3 ''5''),
                    (3, exPayment 3 2 ''20'')],
     customerBalancesMap = [],
     customerIdCounter = 3, productIdCounter = 3, saleIdCounter = 4, saleItemIdCounter = 1,
     returnIdCounter = 2, returnItemIdCounter = 1, paymentIdCounter = 4\<rparr>"

definition exDb :: "int Firestore" where
  "exDb = \<lparr>customers = [(''c1'', exCustomerDoc ''Ann''), (''c2'', exCustomerDoc ''Bob'')],
     products = [(''p1'', exProductDoc ''white'' 10), (''p2'', exProductDoc ''red'' 2)],
     sales = [(''s1'', exSaleDoc ''INV-202401-0001'' ''c1'' 30),
              (''s2'', exSaleDoc ''INV-202401-0002'' ''c1'' 20),
              (''s3'', exSaleDoc ''INV-202401-0003'' ''c2'' 5)],
     saleItems = [(''s1'', [(''i1'', exLineItem ''p1'' 3), (''i2'', exLineItem ''p2'' 1)])],
     returns = [(''r1'', exReturnDoc ''s1'' ''c1'' 4)],
     returnItems = [],
     payments = [(''y1'', exPaymentDoc ''s1'' 10), (''y2'', exPaymentDoc ''s3'' 5),
                 (''y3'', exPaymentDoc ''s2'' 20)],
     customerBalances = []\<rparr>"

text \<open>A database with one sale, the total of which is \<open>NaN\<close>.\<close>

definition nanDb :: "jsnumber Firestore" where
  "nanDb = emptyFirestore\<lparr>sales := [(''s1'', exSaleDoc ''INV-202401-0001'' ''c1'' NaN)]\<rparr>"

subsection \<open>The status rule\<close>




subsection \<open>Stock and line items\<close>

text \<open>
  In \<open>MemStorage\<close> a product carries its identifier inside the value; every product is
  stored under its own identifier.
\<close>

definition wf_products :: "'a MemStorage \<Rightarrow> bool" where
  "wf_products st = list_all (\<lambda>(k, p). p_id p = k) (productsMap st)"


text \<open>
  What one turn of an item loop of the database client does to the products (\<open>getProduct\<close>,
  then \<open>updateProduct\<close> with the stock moved by the quantity, if the product exists) and to
  the items of the sale or return (\<open>addDoc\<close>, \<open>deleteDoc\<close>).
\<close>

definition adjustStock ::
  "int \<Rightarrow> jsdate \<Rightarrow> (string \<times> 'a ProductDoc) list \<Rightarrow> string \<times> (string, 'a) LineItem
     \<Rightarrow> (string \<times> 'a ProductDoc) list" where
  "adjustStock sign now ps x =
     (case map_of ps (li_productId (snd x)) of
        None \<Rightarrow> ps
      | Some p \<Rightarrow>
          AList.update (li_productId (snd x))
            (p\<lparr>p_stock := p_stock p + sign * li_quantity (snd x), p_updatedAt := now\<rparr>) ps)"

definition putItem ::
  "(string \<times> (string, 'a) LineItem) list \<Rightarrow> string \<times> (string, 'a) LineItem
     \<Rightarrow> (string \<times> (string, 'a) LineItem) list" where
  "putItem al x = AList.update (fst x) (snd x) al"


text \<open>Line items for the example store of \<open>MemStorage\<close>.\<close>

definition exInsertSaleItem :: "nat \<Rightarrow> nat \<Rightarrow> int \<Rightarrow> string InsertSaleItem" where
  "exInsertSaleItem s p q = \<lparr>li_productId = p, li_quantity = q, li_unitPrice = ''10'',
     li_totalPrice = exString (10 * q), si_saleId = s\<rparr>"


subsection \<open>Sequences of sale creations\<close>


















subsection \<open>Identifiers of payments\<close>

text \<open>The identifiers of the payments in \<open>MemStorage\<close> lie below the counter of the next one.\<close>

definition fresh_payment_ids :: "'a MemStorage \<Rightarrow> bool" where
  "fresh_payment_ids st = list_all (\<lambda>(k, p). k < paymentIdCounter st) (paymentsMap st)"

section \<open>Lemmas about sums over lists\<close>

lemma foldl_plus_jsSum: "foldl (\<lambda>s x. s + f x) 0 xs = jsSum (map f xs)"
  by (simp add: jsSum_def foldl_map)

lemma foldl_plus_pair_jsSum: "foldl (\<lambda>s (i, d). s + f i d) 0 xs = jsSum (map (\<lambda>(i, d). f i d) xs)"
  by (simp add: jsSum_def foldl_map case_prod_unfold)



section \<open>The ledger aggregator\<close>

lemma mem_totalPaid:
  "foldl (\<lambda>sum payment. sum + Number (pay_amount payment)) 0 (getPaymentsBySale k st) =
     paidOnSale Number k st"
  by (simp add: foldl_plus_jsSum getPaymentsBySale_def paidOnSale_def comp_def)

lemma mem_totalPaid_jsSum:
  "jsSum (map (\<lambda>payment. Number (pay_amount payment)) (getPaymentsBySale k st)) =
     paidOnSale Number k st"
  by (simp add: getPaymentsBySale_def paidOnSale_def comp_def)

lemma db_totalPaid:
  "foldl (\<lambda>sum (j, payment). sum + pay_amount payment) 0 (db_getPaymentsBySale k db) =
     db_paidOnSale k db"
  by (simp add: jsSum_def foldl_map db_getPaymentsBySale_def db_paidOnSale_def comp_def
        case_prod_unfold)

lemma db_totalPaid_jsSum:
  "jsSum (map (\<lambda>(j, payment). pay_amount payment) (db_getPaymentsBySale k db)) =
     db_paidOnSale k db"
  by (simp add: db_getPaymentsBySale_def db_paidOnSale_def comp_def case_prod_unfold)

lemma mem_balance_record:
  assumes "updateCustomerBalance Number String c now st = (cb, st')"
  shows "map_of (customerBalancesMap st') c = Some cb"
    and "cb_totalSales cb = String (sumOfSales Number c st)"
    and "cb_totalReturns cb = String (sumOfReturns Number c st)"
    and "cb_totalPayments cb = String (sumOfPayments Number c st)"
    and "cb_balance cb =
           String (sumOfSales Number c st - sumOfPayments Number c st - sumOfReturns Number c st)"
  using assms
  by (auto simp add: updateCustomerBalance_def Let_def update_conv' mem_totalPaid
        mem_totalPaid_jsSum foldl_plus_jsSum sumOfSales_def sumOfReturns_def sumOfPayments_def comp_def)

lemma db_balance_record:
  "\<exists>b. map_of (customerBalances (db_updateCustomerBalance c now db)) c = Some b
       \<and> cb_totalSales b = db_sumOfSales c db
       \<and> cb_totalReturns b = db_sumOfReturns c db
       \<and> cb_totalPayments b = db_sumOfPayments c db
       \<and> cb_balance b = db_sumOfSales c db - db_sumOfPayments c db - db_sumOfReturns c db"
  by (auto simp add: db_updateCustomerBalance_def Let_def update_conv' db_totalPaid
        db_totalPaid_jsSum foldl_plus_pair_jsSum db_sumOfSales_def db_sumOfReturns_def db_sumOfPayments_def
        split: option.splits)


text \<open>
  Claim C1, as amended. After \<open>updateCustomerBalance\<close> for a customer, in either store,
  the balance record stored for that customer holds the sum of the totals of the customer's
  sales, the sum of the totals of the customer's returns, the sum over the customer's sales
  of the payments on each sale, and the first less the third less the second, all taken
  over the store as it was at the call, from \<open>0\<close> and in the order of the store.
  \<open>MemStorage\<close> reads each amount with \<open>Number\<close> and stores the \<open>String\<close> of each
  result; the database client counts a total of a sale or return that is \<open>0\<close> or \<open>NaN\<close>
  as \<open>0\<close>.
\<close>

theorem balance_is_full_recomputation:
  "(case updateCustomerBalance Number String c now st of (cb, st') \<Rightarrow>
      map_of (customerBalancesMap st') c = Some cb
      \<and> cb_totalSales cb = String (sumOfSales Number c st)
      \<and> cb_totalReturns cb = String (sumOfReturns Number c st)
      \<and> cb_totalPayments cb = String (sumOfPayments Number c st)
      \<and> cb_balance cb =
          String (sumOfSales Number c st - sumOfPayments Number c st - sumOfReturns Number c st))
   \<and> (\<exists>b. map_of (customerBalances (db_updateCustomerBalance k now db)) k = Some b
         \<and> cb_totalSales b = db_sumOfSales k db
         \<and> cb_totalReturns b = db_sumOfReturns k db
         \<and> cb_totalPayments b = db_sumOfPayments k db
         \<and> cb_balance b = cb_totalSales b - cb_totalPayments b - cb_totalReturns b)"
proof (intro conjI)
  obtain cb st' where u: "updateCustomerBalance Number String c now st = (cb, st')"
    by (cases "updateCustomerBalance Number String c now st")
  from mem_balance_record [OF u] u
  show "case updateCustomerBalance Number String c now st of (cb, st') \<Rightarrow>
      map_of (customerBalancesMap st') c = Some cb
      \<and> cb_totalSales cb = String (sumOfSales Number c st)
      \<and> cb_totalReturns cb = String (sumOfReturns Number c st)
      \<and> cb_totalPayments cb = String (sumOfPayments Number c st)
      \<and> cb_balance cb =
          String (sumOfSales Number c st - sumOfPayments Number c st - sumOfReturns Number c st)"
    by simp
next
  from db_balance_record [of k now db]
  show "\<exists>b. map_of (customerBalances (db_updateCustomerBalance k now db)) k = Some b
         \<and> cb_totalSales b = db_sumOfSales k db
         \<and> cb_totalReturns b = db_sumOfReturns k db
         \<and> cb_totalPayments b = db_sumOfPayments k db
         \<and> cb_balance b = cb_totalSales b - cb_totalPayments b - cb_totalReturns b"
    by auto
qed

text \<open>
  In the database client a sale with the total \<open>NaN\<close> adds nothing to the stored sum of
  the sales, which is not the sum of the totals.
\<close>

theorem balance_is_full_recomputation_counterexample:
  "\<exists>b. map_of (customerBalances (db_updateCustomerBalance ''c1'' day1 nanDb)) ''c1'' = Some b
      \<and> cb_totalSales b = Whole 0
      \<and> db_sumOfTotals ''c1'' nanDb = NaN
      \<and> cb_totalSales b \<noteq> db_sumOfTotals ''c1'' nanDb"
  by (simp add: db_updateCustomerBalance_def Let_def nanDb_def emptyFirestore_def exSaleDoc_def
        db_getPaymentsBySale_def db_sumOfTotals_def jsSum_def orZero_def zero_jsnumber_def
        plus_jsnumber_def minus_jsnumber_def less_jsnumber_def)

theorem balance_is_full_recomputation_witness:
  "(case updateCustomerBalance exNumber exString 1 day1 exMem of (cb, st') \<Rightarrow>
         map_of (customerBalancesMap st') 1 = Some cb
         \<and> cb_totalSales cb = ''50'' \<and> cb_totalReturns cb = ''4'' \<and> cb_totalPayments cb = ''30''
         \<and> cb_balance cb = ''16'')
   \<and> (\<exists>b. map_of (customerBalances (db_updateCustomerBalance ''c1'' day1 exDb)) ''c1'' = Some b
         \<and> cb_totalSales b = 50 \<and> cb_totalReturns b = 4 \<and> cb_totalPayments b = 30
         \<and> cb_balance b = 16)"
proof -
  have v1: "sumOfSales exNumber 1 exMem = 50" "sumOfReturns exNumber 1 exMem = 4"
    "sumOfPayments exNumber 1 exMem = 30"
    by (simp_all add: sumOfSales_def sumOfReturns_def sumOfPayments_def paidOnSale_def jsSum_def
          exMem_def exSale_def exReturn_def exPayment_def exNumber_def natOfDigits_def
          digit_val_def)
  have v2: "db_sumOfSales ''c1'' exDb = 50" "db_sumOfReturns ''c1'' exDb = 4"
    "db_sumOfPayments ''c1'' exDb = 30"
    by (simp_all add: db_sumOfSales_def db_sumOfReturns_def db_sumOfPayments_def db_paidOnSale_def
          jsSum_def orZero_def exDb_def exSaleDoc_def exReturnDoc_def exPaymentDoc_def)
  have s: "exString 50 = ''50''" "exString 4 = ''4''" "exString 30 = ''30''" "exString 16 = ''16''"
    by (simp_all add: exString_def String_nat.simps digits10_def)
  show ?thesis
    using balance_is_full_recomputation [where Number = exNumber and String = exString
        and c = 1 and now = day1 and st = exMem and k = "''c1''" and db = exDb]
      v1 v2 s
    by (auto split: prod.splits)
qed

section \<open>Deleting customers and products\<close>

lemma mem_deleteCustomer:
  "deleteCustomer i st = (map_of (customersMap st) i \<noteq> None,
                          st\<lparr>customersMap := AList.delete i (customersMap st)\<rparr>)"
  by (cases "map_of (customersMap st) i")
     (auto simp add: deleteCustomer_def Let_def map_of_eq_None_iff)

lemma mem_deleteProduct:
  "deleteProduct i st = (map_of (productsMap st) i \<noteq> None,
                         st\<lparr>productsMap := AList.delete i (productsMap st)\<rparr>)"
  by (cases "map_of (productsMap st) i")
     (auto simp add: deleteProduct_def Let_def map_of_eq_None_iff)

text \<open>
  Claim C7, as amended. \<open>deleteCustomer\<close> and \<open>deleteProduct\<close> remove the record with
  the given identifier, if there is one, and leave the other records in place, in both stores.
  In \<open>MemStorage\<close> they return whether a record with that identifier existed; in the
  database client they return nothing.
\<close>

theorem delete_contract:
  "(case deleteCustomer i st of (existed, st') \<Rightarrow>
      existed = (map_of (customersMap st) i \<noteq> None)
      \<and> map_of (customersMap st') = (map_of (customersMap st))(i := None))
   \<and> (case deleteProduct i st of (existed, st') \<Rightarrow>
      existed = (map_of (productsMap st) i \<noteq> None)
      \<and> map_of (productsMap st') = (map_of (productsMap st))(i := None))
   \<and> (case db_deleteCustomer k db of (u, db') \<Rightarrow>
      u = () \<and> map_of (customers db') = (map_of (customers db))(k := None))
   \<and> (case db_deleteProduct k db of (u, db') \<Rightarrow>
      u = () \<and> map_of (products db') = (map_of (products db))(k := None))"
  by (simp add: mem_deleteCustomer mem_deleteProduct db_deleteCustomer_def db_deleteProduct_def
        delete_conv')

text \<open>
  The database client's result is the same for a customer (or product) that exists and for
  one that does not: it does not tell whether a record existed.
\<close>

theorem delete_contract_counterexample:
  "map_of (customers exDb) ''c1'' \<noteq> None \<and> map_of (customers exDb) ''c9'' = None
   \<and> fst (db_deleteCustomer ''c1'' exDb) = fst (db_deleteCustomer ''c9'' exDb)
   \<and> map_of (products exDb) ''p1'' \<noteq> None \<and> map_of (products exDb) ''p9'' = None
   \<and> fst (db_deleteProduct ''p1'' exDb) = fst (db_deleteProduct ''p9'' exDb)"
  by (simp add: exDb_def db_deleteCustomer_def db_deleteProduct_def)

theorem delete_contract_witness:
  "deleteCustomer 1 exMem = (True, exMem\<lparr>customersMap := [(2, exCustomer 2 ''Bob'')]\<rparr>)
   \<and> fst (deleteCustomer 7 exMem) = False
   \<and> map_of (customers (snd (db_deleteCustomer ''c1'' exDb))) ''c1'' = None"
  using delete_contract [where i = 1 and st = exMem and k = "''c1''" and db = exDb]
    delete_contract [where i = 7 and st = exMem and k = "''c1''" and db = exDb]
  by (auto simp add: exMem_def mem_deleteCustomer split: prod.splits)

section \<open>What the ledger aggregator leaves alone\<close>

lemma mem_updateCustomerBalance_frame:
  "snd (updateCustomerBalance Number String c now st) =
     st\<lparr>customerBalancesMap :=
          AList.update c (fst (updateCustomerBalance Number String c now st)) (customerBalancesMap st)\<rparr>"
  by (simp add: updateCustomerBalance_def Let_def)

lemma db_updateCustomerBalance_frame:
  "\<exists>b. db_updateCustomerBalance k now db =
         db\<lparr>customerBalances := AList.update k b (customerBalances db)\<rparr>"
  by (auto simp add: db_updateCustomerBalance_def Let_def split: option.splits)

text \<open>
  Claim C10. \<open>updateCustomerBalance\<close> for a customer writes the balance record of that
  customer and nothing else: every other collection is the same list as before, and the
  balances differ from the old ones at that customer only.
\<close>

theorem balance_update_frame:
  "(case updateCustomerBalance Number String c now st of (cb, st') \<Rightarrow>
      customersMap st' = customersMap st \<and> productsMap st' = productsMap st
      \<and> salesMap st' = salesMap st \<and> saleItemsMap st' = saleItemsMap st
      \<and> returnsMap st' = returnsMap st \<and> returnItemsMap st' = returnItemsMap st
      \<and> paymentsMap st' = paymentsMap st
      \<and> map_of (customerBalancesMap st') = (map_of (customerBalancesMap st))(c \<mapsto> cb))
   \<and> (let db' = db_updateCustomerBalance k now db in
      customers db' = customers db \<and> products db' = products db
      \<and> sales db' = sales db \<and> saleItems db' = saleItems db
      \<and> returns db' = returns db \<and> returnItems db' = returnItems db
      \<and> payments db' = payments db
      \<and> (\<exists>b. map_of (customerBalances db') = (map_of (customerBalances db))(k \<mapsto> b)))"
proof -
  obtain b where b: "db_updateCustomerBalance k now db =
         db\<lparr>customerBalances := AList.update k b (customerBalances db)\<rparr>"
    using db_updateCustomerBalance_frame by blast
  have "map_of (customerBalances (db_updateCustomerBalance k now db)) =
          (map_of (customerBalances db))(k \<mapsto> b)"
    by (simp add: b update_conv')
  then have "\<exists>b. map_of (customerBalances (db_updateCustomerBalance k now db)) =
          (map_of (customerBalances db))(k \<mapsto> b)" ..
  moreover have "customers (db_updateCustomerBalance k now db) = customers db"
    "products (db_updateCustomerBalance k now db) = products db"
    "sales (db_updateCustomerBalance k now db) = sales db"
    "saleItems (db_updateCustomerBalance k now db) = saleItems db"
    "returns (db_updateCustomerBalance k now db) = returns db"
    "returnItems (db_updateCustomerBalance k now db) = returnItems db"
    "payments (db_updateCustomerBalance k now db) = payments db"
    by (simp_all add: b)
  moreover have "case updateCustomerBalance Number String c now st of (cb, st') \<Rightarrow>
      customersMap st' = customersMap st \<and> productsMap st' = productsMap st
      \<and> salesMap st' = salesMap st \<and> saleItemsMap st' = saleItemsMap st
      \<and> returnsMap st' = returnsMap st \<and> returnItemsMap st' = returnItemsMap st
      \<and> paymentsMap st' = paymentsMap st
      \<and> map_of (customerBalancesMap st') = (map_of (customerBalancesMap st))(c \<mapsto> cb)"
    by (simp add: updateCustomerBalance_def Let_def update_conv')
  ultimately show ?thesis by (simp add: Let_def)
qed


section \<open>Recomputing a balance twice\<close>

lemma mem_updateCustomerBalance_twice:
  "fst (updateCustomerBalance Number String c now' (snd (updateCustomerBalance Number String c now st))) =
     (fst (updateCustomerBalance Number String c now st))\<lparr>cb_updatedAt := now'\<rparr>"
  by (simp add: updateCustomerBalance_def Let_def getPaymentsBySale_def)

lemma mem_updateCustomerBalance_stored:
  "map_of (customerBalancesMap (snd (updateCustomerBalance Number String c now st))) c =
     Some (fst (updateCustomerBalance Number String c now st))"
  by (simp add: updateCustomerBalance_def Let_def update_conv')

lemma db_updateCustomerBalance_twice:
  "\<exists>b. map_of (customerBalances (db_updateCustomerBalance k now db)) k = Some b
       \<and> map_of (customerBalances
             (db_updateCustomerBalance k now' (db_updateCustomerBalance k now db))) k =
           Some (b\<lparr>cb_updatedAt := now'\<rparr>)"
  by (cases "map_of (customerBalances db) k")
     (simp_all add: db_updateCustomerBalance_def Let_def db_getPaymentsBySale_def update_conv')

text \<open>
  Claim C6. Two calls of \<open>updateCustomerBalance\<close> for the same customer, one right after
  the other, store the same total of sales, of payments, of returns and the same balance.
\<close>

theorem balance_update_idempotent:
  "(case updateCustomerBalance Number String c now st of (cb1, st1) \<Rightarrow>
      case updateCustomerBalance Number String c now' st1 of (cb2, st2) \<Rightarrow>
        map_of (customerBalancesMap st1) c = Some cb1
        \<and> map_of (customerBalancesMap st2) c = Some cb2
        \<and> cb_totalSales cb2 = cb_totalSales cb1
        \<and> cb_totalPayments cb2 = cb_totalPayments cb1
        \<and> cb_totalReturns cb2 = cb_totalReturns cb1
        \<and> cb_balance cb2 = cb_balance cb1)
   \<and> (let db1 = db_updateCustomerBalance k now db;
           db2 = db_updateCustomerBalance k now' db1
       in \<exists>b1 b2. map_of (customerBalances db1) k = Some b1
            \<and> map_of (customerBalances db2) k = Some b2
            \<and> cb_totalSales b2 = cb_totalSales b1
            \<and> cb_totalPayments b2 = cb_totalPayments b1
            \<and> cb_totalReturns b2 = cb_totalReturns b1
            \<and> cb_balance b2 = cb_balance b1)"
proof -
  obtain cb1 st1 where u1: "updateCustomerBalance Number String c now st = (cb1, st1)"
    by (cases "updateCustomerBalance Number String c now st")
  obtain cb2 st2 where u2: "updateCustomerBalance Number String c now' st1 = (cb2, st2)"
    by (cases "updateCustomerBalance Number String c now' st1")
  have "cb2 = cb1\<lparr>cb_updatedAt := now'\<rparr>"
    using mem_updateCustomerBalance_twice [of Number String c now' now st] u1 u2 by simp
  moreover have "map_of (customerBalancesMap st1) c = Some cb1"
    using mem_updateCustomerBalance_stored [of Number String c now st] u1 by simp
  moreover have "map_of (customerBalancesMap st2) c = Some cb2"
    using mem_updateCustomerBalance_stored [of Number String c now' st1] u2 by simp
  moreover obtain b where
    "map_of (customerBalances (db_updateCustomerBalance k now db)) k = Some b"
    "map_of (customerBalances
        (db_updateCustomerBalance k now' (db_updateCustomerBalance k now db))) k =
     Some (b\<lparr>cb_updatedAt := now'\<rparr>)"
    using db_updateCustomerBalance_twice by blast
  ultimately show ?thesis
    by (simp add: u1 u2 Let_def)
qed

section \<open>Creating a payment\<close>





lemma wf_sales_lookup:
  "wf_sales st \<Longrightarrow> map_of (salesMap st) k = Some s \<Longrightarrow> s_id s = k"
  unfolding wf_sales_def list_all_iff by (auto dest: map_of_SomeD)

lemma mem_createPayment_no_sale:
  assumes "map_of (salesMap st) (pay_saleId p) = None"
  shows "\<exists>payment. createPayment Number String p now st =
           (payment, st\<lparr>paymentIdCounter := paymentIdCounter st + 1,
                        paymentsMap := AList.update (paymentIdCounter st) payment (paymentsMap st)\<rparr>)
         \<and> pay_id payment = paymentIdCounter st
         \<and> pay_saleId payment = pay_saleId p \<and> pay_amount payment = pay_amount p"
  using assms by (simp add: createPayment_def Let_def)


lemma db_updateCustomerBalance_fields:
  "customers (db_updateCustomerBalance k now db) = customers db"
  "products (db_updateCustomerBalance k now db) = products db"
  "sales (db_updateCustomerBalance k now db) = sales db"
  "saleItems (db_updateCustomerBalance k now db) = saleItems db"
  "returns (db_updateCustomerBalance k now db) = returns db"
  "returnItems (db_updateCustomerBalance k now db) = returnItems db"
  "payments (db_updateCustomerBalance k now db) = payments db"
  by (simp_all add: db_updateCustomerBalance_def Let_def split: option.splits)

lemma db_updateCustomerBalance_other:
  "j \<noteq> k \<Longrightarrow> map_of (customerBalances (db_updateCustomerBalance k now db)) j =
     map_of (customerBalances db) j"
  by (simp add: db_updateCustomerBalance_def Let_def update_conv' split: option.splits)

lemma addDocAt_conv: "map_of (addDocAt place k v al) = (map_of al)(k \<mapsto> v)"
proof (cases "k \<in> fst ` set al")
  case True
  then show ?thesis
    by (simp add: addDocAt_def update_conv')
next
  case False
  have "fst ` set (take place al) \<subseteq> fst ` set al"
    by (auto dest: in_set_takeD)
  then have "k \<notin> fst ` set (take place al)"
    using False by blast
  then have n: "map_of (take place al) k = None"
    by (simp add: map_of_eq_None_iff)
  have "map_of al = map_of (take place al @ drop place al)"
    by simp
  also have "\<dots> = map_of (drop place al) ++ map_of (take place al)"
    by (rule map_of_append)
  finally have a: "map_of al = map_of (drop place al) ++ map_of (take place al)" .
  have "map_of (take place al @ (k, v) # drop place al) =
        map_of ((k, v) # drop place al) ++ map_of (take place al)"
    by (rule map_of_append)
  then show ?thesis
    using False n by (auto simp add: addDocAt_def a fun_eq_iff map_add_def split: option.splits)
qed


lemma db_createPayment_no_sale:
  assumes "map_of (sales db) (pay_saleId q) = None"
  shows "db_createPayment q newId place now db =
           Inr (newId, db\<lparr>payments := addDocAt place newId
                  \<lparr>pay_saleId = pay_saleId q, pay_amount = pay_amount q,
                   pay_paymentMethod = pay_paymentMethod q, pay_date = pay_date q,
                   pay_reference = pay_reference q, pay_createdBy = pay_createdBy q,
                   pay_createdAt = now\<rparr> (payments db)\<rparr>)"
  using assms by (simp add: db_createPayment_def Let_def db_getSale_def)









text \<open>
  Claim C9, as amended. When \<open>createPayment\<close> is called with a payment whose sale does
  not exist, the payment is stored, and the sales and the balances stay as they were.
  \<open>MemStorage\<close> returns the stored payment; the database client returns the identifier of
  the new document.
\<close>

theorem payment_without_sale:
  "(map_of (salesMap st) (pay_saleId p) = None \<longrightarrow>
      (case createPayment Number String p now st of (payment, st') \<Rightarrow>
         map_of (paymentsMap st') (pay_id payment) = Some payment
         \<and> pay_saleId payment = pay_saleId p \<and> pay_amount payment = pay_amount p
         \<and> salesMap st' = salesMap st
         \<and> customerBalancesMap st' = customerBalancesMap st))
   \<and> (map_of (sales db) (pay_saleId q) = None \<longrightarrow>
      (\<exists>db'. db_createPayment q newId place now db = Inr (newId, db')
         \<and> (\<exists>pd. map_of (payments db') newId = Some pd
               \<and> pay_saleId pd = pay_saleId q \<and> pay_amount pd = pay_amount q)
         \<and> sales db' = sales db
         \<and> customerBalances db' = customerBalances db))"
proof (intro conjI impI)
  assume a: "map_of (salesMap st) (pay_saleId p) = None"
  from mem_createPayment_no_sale [OF a, of Number String now]
  obtain payment where c: "createPayment Number String p now st =
           (payment, st\<lparr>paymentIdCounter := paymentIdCounter st + 1,
                        paymentsMap := AList.update (paymentIdCounter st) payment (paymentsMap st)\<rparr>)"
    and f: "pay_id payment = paymentIdCounter st" "pay_saleId payment = pay_saleId p"
      "pay_amount payment = pay_amount p"
    by blast
  show "case createPayment Number String p now st of (payment, st') \<Rightarrow>
         map_of (paymentsMap st') (pay_id payment) = Some payment
         \<and> pay_saleId payment = pay_saleId p \<and> pay_amount payment = pay_amount p
         \<and> salesMap st' = salesMap st
         \<and> customerBalancesMap st' = customerBalancesMap st"
    by (simp add: c f update_conv')
next
  assume a: "map_of (sales db) (pay_saleId q) = None"
  show "\<exists>db'. db_createPayment q newId place now db = Inr (newId, db')
         \<and> (\<exists>pd. map_of (payments db') newId = Some pd
               \<and> pay_saleId pd = pay_saleId q \<and> pay_amount pd = pay_amount q)
         \<and> sales db' = sales db
         \<and> customerBalances db' = customerBalances db"
    by (simp add: db_createPayment_no_sale [OF a] addDocAt_conv update_conv')
qed

text \<open>
  What the database client returns is the identifier of the new document, not the payment:
  for two payments of different amounts it returns the same value.
\<close>

theorem payment_without_sale_counterexample:
  "map_of (sales exDb) ''s9'' = None
   \<and> (\<exists>db1 db2 pd1 pd2.
         db_createPayment (exInsertPayment ''s9'' 5) ''y4'' 1 day1 exDb = Inr (''y4'', db1)
         \<and> db_createPayment (exInsertPayment ''s9'' 7) ''y4'' 1 day1 exDb = Inr (''y4'', db2)
         \<and> map_of (payments db1) ''y4'' = Some pd1 \<and> pay_amount pd1 = 5
         \<and> map_of (payments db2) ''y4'' = Some pd2 \<and> pay_amount pd2 = 7)"
proof -
  have h: "map_of (sales exDb) ''s9'' = None"
    by (simp add: exDb_def)
  have e: "\<And>x a. pay_saleId (exInsertPayment x a) = x"
    by (simp add: exInsertPayment_def)
  have "map_of (sales exDb) (pay_saleId (exInsertPayment ''s9'' a)) = None" for a :: int
    using h by (simp add: e)
  then show ?thesis
    using h by (simp add: db_createPayment_no_sale addDocAt_conv update_conv' exInsertPayment_def)
qed

theorem payment_without_sale_witness:
  "map_of (salesMap exMem) 9 = None
   \<and> (case createPayment exNumber exString (exInsertPayment 9 ''20'') day1 exMem of (payment, st') \<Rightarrow>
         map_of (paymentsMap st') (pay_id payment) = Some payment
         \<and> pay_saleId payment = 9 \<and> pay_amount payment = ''20''
         \<and> salesMap st' = salesMap exMem
         \<and> customerBalancesMap st' = customerBalancesMap exMem)
   \<and> map_of (sales exDb) ''s9'' = None
   \<and> (\<exists>db'. db_createPayment (exInsertPayment ''s9'' 5) ''y4'' 1 day1 exDb = Inr (''y4'', db')
         \<and> (\<exists>pd. map_of (payments db') ''y4'' = Some pd
               \<and> pay_saleId pd = ''s9'' \<and> pay_amount pd = 5)
         \<and> sales db' = sales exDb
         \<and> customerBalances db' = customerBalances exDb)"
proof -
  have h1: "map_of (salesMap exMem) 9 = None"
    by (simp add: exMem_def)
  have h2: "map_of (sales exDb) ''s9'' = None"
    by (simp add: exDb_def)
  have e1: "\<And>x a. pay_saleId (exInsertPayment x a) = x"
    "\<And>x a. pay_amount (exInsertPayment x a) = a"
    by (simp_all add: exInsertPayment_def)
  show ?thesis
    using payment_without_sale [where Number = exNumber and String = exString
        and st = exMem and p = "exInsertPayment 9 ''20''" and now = day1
        and db = exDb and q = "exInsertPayment ''s9'' 5" and newId = "''y4''" and place = 1] h1 h2
    by (simp add: e1)
qed

section \<open>The inventory adjuster\<close>




lemma mem_addSaleItem_no_product:
  assumes "map_of (productsMap st) (li_productId ins) = None"
  shows "productsMap (snd (addSaleItem ins now st)) = productsMap st"
    and "getSaleItems (si_saleId ins) (snd (addSaleItem ins now st)) =
           getSaleItems (si_saleId ins) st @ [fst (addSaleItem ins now st)]"
    and "fst (addSaleItem ins now st) =
           \<lparr>li_productId = li_productId ins, li_quantity = li_quantity ins,
            li_unitPrice = li_unitPrice ins, li_totalPrice = li_totalPrice ins,
            si_saleId = si_saleId ins, si_id = saleItemIdCounter st\<rparr>"
  using assms by (simp_all add: addSaleItem_def Let_def getSaleItems_def update_conv')



lemma adjustStock_missing:
  "map_of ps (li_productId (snd x)) = None \<Longrightarrow> adjustStock sign now ps x = ps"
  by (simp add: adjustStock_def)

lemma adjustStock_keys:
  "(map_of (adjustStock sign now ps x) k = None) = (map_of ps k = None)"
  by (cases "map_of ps (li_productId (snd x))") (auto simp add: adjustStock_def update_conv')

lemma foldl_adjustStock_keys:
  "(map_of (foldl (adjustStock sign now) ps items) k = None) = (map_of ps k = None)"
  by (induction items arbitrary: ps) (simp_all add: adjustStock_keys)

lemma foldl_adjustStock_skip:
  assumes "map_of ps (li_productId (snd x)) = None"
  shows "foldl (adjustStock sign now) ps (pre @ x # post) =
         foldl (adjustStock sign now) ps (pre @ post)"
proof -
  have "map_of (foldl (adjustStock sign now) ps pre) (li_productId (snd x)) = None"
    using assms by (simp add: foldl_adjustStock_keys)
  then show ?thesis
    by (simp add: adjustStock_missing)
qed

lemma db_updateProduct_stock:
  assumes "map_of (products st) (li_productId item) = Some p"
  shows "db_updateProduct (li_productId item)
           (no_product_patch\<lparr>pp_stock := Some (p_stock p + sign * li_quantity item)\<rparr>) now st =
         Inr (st\<lparr>products := adjustStock sign now (products st) (i, item)\<rparr>)"
  using assms
  by (simp add: db_updateProduct_def adjustStock_def patch_product_def no_product_patch_def
        merge_field_def)

lemma db_addSaleItems_result:
  "\<exists>st'. db_addSaleItems saleId items now st = Inr st'
     \<and> products st' = foldl (adjustStock (- 1) now) (products st) items
     \<and> db_getSaleItems saleId st' = foldl putItem (db_getSaleItems saleId st) items
     \<and> customers st' = customers st \<and> sales st' = sales st \<and> returns st' = returns st
     \<and> returnItems st' = returnItems st \<and> payments st' = payments st
     \<and> customerBalances st' = customerBalances st"
proof (induction items arbitrary: st)
  case Nil
  then show ?case by simp
next
  case (Cons x items)
  obtain itemId item where x: "x = (itemId, item)" by (cases x)
  let ?st1 = "st\<lparr>saleItems := AList.update saleId
                 (AList.update itemId item (db_getSaleItems saleId st)) (saleItems st)\<rparr>"
  have g: "db_getSaleItems saleId ?st1 = putItem (db_getSaleItems saleId st) x"
    by (simp add: db_getSaleItems_def update_conv' putItem_def x)
  show ?case
  proof (cases "map_of (products st) (li_productId item)")
    case None
    then have a: "adjustStock (- 1) now (products st) x = products st"
      by (simp add: adjustStock_missing x)
    from Cons.IH [of ?st1] g None a show ?thesis
      by (simp add: x Let_def db_getProduct_def)
  next
    case (Some p)
    let ?st2 = "?st1\<lparr>products := adjustStock (- 1) now (products ?st1) (itemId, item)\<rparr>"
    have u: "db_updateProduct (li_productId item)
           (no_product_patch\<lparr>pp_stock := Some (p_stock p - li_quantity item)\<rparr>) now ?st1 = Inr ?st2"
      using db_updateProduct_stock [of ?st1 item p "- 1" now itemId] Some by simp
    have g2: "db_getSaleItems saleId ?st2 = putItem (db_getSaleItems saleId st) x"
      using g by (simp add: db_getSaleItems_def)
    from Cons.IH [of ?st2] g2 Some u show ?thesis
      by (simp add: x Let_def db_getProduct_def)
  qed
qed






lemma foldl_putItem_other:
  "k \<notin> fst ` set xs \<Longrightarrow> map_of (foldl putItem al xs) k = map_of al k"
  by (induction xs arbitrary: al) (auto simp add: putItem_def update_conv')

lemma foldl_putItem_recorded:
  "k \<notin> fst ` set post \<Longrightarrow> map_of (foldl putItem al (pre @ (k, item) # post)) k = Some item"
  by (simp add: foldl_putItem_other putItem_def update_conv')


lemma foldl_adjustStock_all_missing:
  "list_all (\<lambda>x. map_of ps (li_productId (snd x)) = None) items \<Longrightarrow>
   foldl (adjustStock sign now) ps items = ps"
  by (induction items) (simp_all add: adjustStock_missing)

lemma db_createSale_result:
  "\<exists>db'. db_createSale parseInt String data items newId now db = Inr (newId, db')
     \<and> products db' = foldl (adjustStock (- 1) now) (products db) items
     \<and> db_getSaleItems newId db' = foldl putItem (db_getSaleItems newId db) items"
proof -
  let ?lastNumber = "case latestDoc s_createdAt (sales db) of
                          None \<Rightarrow> 0
                        | Some (i, d) \<Rightarrow> lastNumberOf parseInt (s_invoiceNumber d)"
  let ?saleData = "\<lparr>s_invoiceNumber = documentNumber ''INV'' now (String (?lastNumber + 1)),
            s_customerId = s_customerId data, s_date = s_date data, s_subTotal = s_subTotal data,
            s_discountAmount = s_discountAmount data, s_totalAmount = s_totalAmount data,
            s_paymentMethod = s_paymentMethod data, s_paymentStatus = s_paymentStatus data,
            s_notes = s_notes data, s_createdBy = s_createdBy data,
            s_createdAt = now, s_updatedAt = now\<rparr>"
  let ?st1 = "db\<lparr>sales := AList.update newId ?saleData (sales db)\<rparr>"
  obtain st2 where l: "db_addSaleItems newId items now ?st1 = Inr st2"
    and p: "products st2 = foldl (adjustStock (- 1) now) (products ?st1) items"
    and g: "db_getSaleItems newId st2 = foldl putItem (db_getSaleItems newId ?st1) items"
    using db_addSaleItems_result [of newId items now ?st1] by blast
  have "db_createSale parseInt String data items newId now db =
          Inr (newId, db_updateCustomerBalance (s_customerId data) now st2)"
    unfolding db_createSale_def Let_def using l by simp
  moreover have "db_getSaleItems newId (db_updateCustomerBalance (s_customerId data) now st2) =
      db_getSaleItems newId st2"
    by (simp add: db_getSaleItems_def db_updateCustomerBalance_fields)
  moreover have "db_getSaleItems newId ?st1 = db_getSaleItems newId db"
    by (simp add: db_getSaleItems_def)
  ultimately show ?thesis
    using p g by (simp add: db_updateCustomerBalance_fields)
qed










text \<open>
  Claim C8. A sale item whose product does not exist is recorded under its sale all the same,
  and no product changes: in \<open>MemStorage\<close> the products are the same list after
  \<open>addSaleItem\<close>; in the database client \<open>createSale\<close> leaves the same products whether
  or not the item is among the items of the sale.
\<close>

theorem item_for_missing_product:
  "(map_of (productsMap st) (li_productId ins) = None \<longrightarrow>
      (case addSaleItem ins now st of (saleItem, st') \<Rightarrow>
         getSaleItems (si_saleId ins) st' = getSaleItems (si_saleId ins) st @ [saleItem]
         \<and> li_productId saleItem = li_productId ins \<and> li_quantity saleItem = li_quantity ins
         \<and> si_saleId saleItem = si_saleId ins
         \<and> productsMap st' = productsMap st))
   \<and> (map_of (products db) (li_productId item) = None \<and> itemId \<notin> fst ` set post \<longrightarrow>
      (\<exists>db'. db_createSale parseInt String sd (pre @ (itemId, item) # post) newId now db = Inr (newId, db')
         \<and> map_of (db_getSaleItems newId db') itemId = Some item
         \<and> (\<exists>db''. db_createSale parseInt String sd (pre @ post) newId now db = Inr (newId, db'')
                \<and> products db' = products db'')
         \<and> (list_all (\<lambda>x. map_of (products db) (li_productId (snd x)) = None) (pre @ post) \<longrightarrow>
              products db' = products db)))"
proof (intro conjI impI)
  assume a: "map_of (productsMap st) (li_productId ins) = None"
  obtain saleItem st' where c: "addSaleItem ins now st = (saleItem, st')"
    by (cases "addSaleItem ins now st")
  from mem_addSaleItem_no_product [OF a, of now] c
  show "case addSaleItem ins now st of (saleItem, st') \<Rightarrow>
         getSaleItems (si_saleId ins) st' = getSaleItems (si_saleId ins) st @ [saleItem]
         \<and> li_productId saleItem = li_productId ins \<and> li_quantity saleItem = li_quantity ins
         \<and> si_saleId saleItem = si_saleId ins
         \<and> productsMap st' = productsMap st"
    by simp
next
  assume a: "map_of (products db) (li_productId item) = None \<and> itemId \<notin> fst ` set post"
  let ?items = "pre @ (itemId, item) # post"
  obtain db1 where c1: "db_createSale parseInt String sd ?items newId now db = Inr (newId, db1)"
    and p1: "products db1 = foldl (adjustStock (- 1) now) (products db) ?items"
    and g1: "db_getSaleItems newId db1 = foldl putItem (db_getSaleItems newId db) ?items"
    using db_createSale_result by blast
  obtain db2 where c2: "db_createSale parseInt String sd (pre @ post) newId now db = Inr (newId, db2)"
    and p2: "products db2 = foldl (adjustStock (- 1) now) (products db) (pre @ post)"
    using db_createSale_result by blast
  have r: "map_of (db_getSaleItems newId db1) itemId = Some item"
    unfolding g1 using a by (intro foldl_putItem_recorded) simp
  have e: "products db1 = products db2"
    unfolding p1 p2 using a by (intro foldl_adjustStock_skip) simp
  have n: "list_all (\<lambda>x. map_of (products db) (li_productId (snd x)) = None) (pre @ post) \<longrightarrow>
           products db1 = products db"
    unfolding e p2 using foldl_adjustStock_all_missing by blast
  from c1 c2 r e n
  show "\<exists>db'. db_createSale parseInt String sd ?items newId now db = Inr (newId, db')
         \<and> map_of (db_getSaleItems newId db') itemId = Some item
         \<and> (\<exists>db''. db_createSale parseInt String sd (pre @ post) newId now db = Inr (newId, db'')
                \<and> products db' = products db'')
         \<and> (list_all (\<lambda>x. map_of (products db) (li_productId (snd x)) = None) (pre @ post) \<longrightarrow>
              products db' = products db)"
    by simp
qed

theorem item_for_missing_product_witness:
  "map_of (productsMap exMem) 9 = None
   \<and> (case addSaleItem (exInsertSaleItem 1 9 4) day1 exMem of (saleItem, st') \<Rightarrow>
         getSaleItems 1 st' = [saleItem] \<and> li_productId saleItem = 9 \<and> li_quantity saleItem = 4
         \<and> productsMap st' = productsMap exMem)
   \<and> map_of (products exDb) ''p9'' = None
   \<and> (\<exists>db'. db_createSale exNumber exString (exInsertSale ''c1'' 50)
                [(''i7'', exLineItem ''p1'' 2), (''i8'', exLineItem ''p9'' 4)] ''s7'' day1 exDb =
              Inr (''s7'', db')
         \<and> map_of (db_getSaleItems ''s7'' db') ''i8'' = Some (exLineItem ''p9'' 4)
         \<and> (\<exists>db''. db_createSale exNumber exString (exInsertSale ''c1'' 50) [(''i7'', exLineItem ''p1'' 2)] ''s7''
                      day1 exDb = Inr (''s7'', db'')
                \<and> products db' = products db''))"
proof -
  have h1: "map_of (productsMap exMem) 9 = None"
    by (simp add: exMem_def)
  have h2: "map_of (products exDb) ''p9'' = None"
    by (simp add: exDb_def)
  have g: "getSaleItems (Suc 0) exMem = []"
    by (simp add: getSaleItems_def exMem_def)
  have e: "\<And>s p q. li_productId (exInsertSaleItem s p q) = p"
    "\<And>s p q. li_quantity (exInsertSaleItem s p q) = q"
    "\<And>s p q. si_saleId (exInsertSaleItem s p q) = s"
    "\<And>(p::string) q. li_productId (exLineItem p q) = p"
    by (simp_all add: exInsertSaleItem_def exLineItem_def)
  have "(case addSaleItem (exInsertSaleItem 1 9 4) day1 exMem of (saleItem, st') \<Rightarrow>
         getSaleItems 1 st' = [saleItem] \<and> li_productId saleItem = 9 \<and> li_quantity saleItem = 4
         \<and> productsMap st' = productsMap exMem)"
    using item_for_missing_product [where st = exMem and ins = "exInsertSaleItem 1 9 4"
        and now = day1, THEN conjunct1] h1
    by (auto simp add: e g)
  moreover have "\<exists>db'. db_createSale exNumber exString (exInsertSale ''c1'' 50)
                [(''i7'', exLineItem ''p1'' 2), (''i8'', exLineItem ''p9'' 4)] ''s7'' day1 exDb =
              Inr (''s7'', db')
         \<and> map_of (db_getSaleItems ''s7'' db') ''i8'' = Some (exLineItem ''p9'' 4)
         \<and> (\<exists>db''. db_createSale exNumber exString (exInsertSale ''c1'' 50) [(''i7'', exLineItem ''p1'' 2)] ''s7''
                      day1 exDb = Inr (''s7'', db'')
                \<and> products db' = products db'')"
    using item_for_missing_product [where db = exDb and item = "exLineItem ''p9'' 4"
        and itemId = "''i8''" and pre = "[(''i7'', exLineItem ''p1'' 2)]" and post = "[]"
        and sd = "exInsertSale ''c1'' 50" and newId = "''s7''" and now = day1
        and parseInt = exNumber and String = exString, THEN conjunct2] h2
    by (auto simp add: e)
  ultimately show ?thesis
    using h1 h2 by blast
qed



section \<open>Invoice numbers\<close>























subsection \<open>The numbers of \<open>MemStorage\<close>\<close>




subsection \<open>The numbers of the database client\<close>





















section \<open>The stores keep what the theorems assume\<close>

text \<open>
  The hypotheses of the theorems above on \<open>MemStorage\<close> hold in the store that the
  constructor builds, and the operations keep them: every sale and every product stays under
  its own identifier, and the identifiers of the payments stay below the counter.
\<close>

lemma list_all_update:
  "list_all P al \<Longrightarrow> P (k, v) \<Longrightarrow> list_all P (AList.update k v al)"
  by (induction al) auto

lemma list_all_delete:
  "list_all P al \<Longrightarrow> list_all P (AList.delete k al)"
  by (induction al) auto

lemma wf_sales_update:
  assumes "wf_sales st" and "s_id s = k" and "salesMap st' = AList.update k s (salesMap st)"
  shows "wf_sales st'"
  using assms unfolding wf_sales_def
  by (simp add: distinct_update list_all_update)

lemma wf_sales_same:
  "wf_sales st \<Longrightarrow> salesMap st' = salesMap st \<Longrightarrow> wf_sales st'"
  by (simp add: wf_sales_def)

lemma wf_products_same:
  "wf_products st \<Longrightarrow> productsMap st' = productsMap st \<Longrightarrow> wf_products st'"
  by (simp add: wf_products_def)

lemma mem_updateCustomerBalance_maps:
  "salesMap (snd (updateCustomerBalance Number String c now st)) = salesMap st"
  "productsMap (snd (updateCustomerBalance Number String c now st)) = productsMap st"
  "paymentsMap (snd (updateCustomerBalance Number String c now st)) = paymentsMap st"
  "paymentIdCounter (snd (updateCustomerBalance Number String c now st)) = paymentIdCounter st"
  by (simp_all add: mem_updateCustomerBalance_frame)

lemma wf_newMemStorage:
  "wf_sales newMemStorage" "wf_products newMemStorage" "fresh_payment_ids newMemStorage"
  by (simp_all add: wf_sales_def wf_products_def fresh_payment_ids_def newMemStorage_def)

lemma wf_sales_createSale:
  assumes "wf_sales st"
  shows "wf_sales (snd (createSale Number String ins now st))"
proof -
  let ?st' = "snd (createSale Number String ins now st)"
  let ?k = "saleIdCounter st"
  let ?s = "the (map_of (salesMap ?st') ?k)"
  have e: "salesMap ?st' = AList.update ?k ?s (salesMap st)"
    by (simp add: createSale_def Let_def mem_updateCustomerBalance_maps update_conv')
  have i: "s_id ?s = ?k"
    by (simp add: createSale_def Let_def mem_updateCustomerBalance_maps update_conv')
  from assms i e show ?thesis
    by (rule wf_sales_update)
qed

lemma wf_sales_updateSale:
  assumes "wf_sales st"
  shows "wf_sales (snd (updateSale Number String i saleData now st))"
proof (cases "map_of (salesMap st) i")
  case None
  then show ?thesis
    using assms by (simp add: updateSale_def)
next
  case (Some sale)
  let ?st' = "snd (updateSale Number String i saleData now st)"
  let ?s = "the (map_of (salesMap ?st') i)"
  have k: "s_id sale = i"
    using assms Some by (rule wf_sales_lookup)
  have e: "salesMap ?st' = AList.update i ?s (salesMap st)"
    using Some by (simp add: updateSale_def Let_def mem_updateCustomerBalance_maps update_conv')
  have i: "s_id ?s = i"
    using Some k
    by (simp add: updateSale_def Let_def mem_updateCustomerBalance_maps update_conv' patch_sale_def)
  from assms i e show ?thesis
    by (rule wf_sales_update)
qed

lemma wf_sales_createPayment:
  assumes "wf_sales st"
  shows "wf_sales (snd (createPayment Number String p now st))"
proof (cases "map_of (salesMap st) (pay_saleId p)")
  case None
  then have "salesMap (snd (createPayment Number String p now st)) = salesMap st"
    by (simp add: createPayment_def Let_def)
  with assms show ?thesis
    by (rule wf_sales_same)
next
  case (Some sale)
  let ?st' = "snd (createPayment Number String p now st)"
  let ?s = "the (map_of (salesMap ?st') (s_id sale))"
  have e: "salesMap ?st' = AList.update (s_id sale) ?s (salesMap st)"
    using Some by (simp add: createPayment_def Let_def mem_updateCustomerBalance_maps update_conv')
  have i: "s_id ?s = s_id sale"
    using Some by (simp add: createPayment_def Let_def mem_updateCustomerBalance_maps update_conv')
  from assms i e show ?thesis
    by (rule wf_sales_update)
qed

lemma wf_products_addSaleItem:
  assumes "wf_products st"
  shows "wf_products (snd (addSaleItem ins now st))"
proof (cases "map_of (productsMap st) (li_productId ins)")
  case None
  then have "productsMap (snd (addSaleItem ins now st)) = productsMap st"
    by (simp add: addSaleItem_def Let_def)
  with assms show ?thesis
    by (rule wf_products_same)
next
  case (Some p)
  then show ?thesis
    using assms by (simp add: addSaleItem_def Let_def wf_products_def list_all_update)
qed

lemma wf_products_addReturnItem:
  assumes "wf_products st"
  shows "wf_products (snd (addReturnItem ins now st))"
proof (cases "map_of (productsMap st) (li_productId ins)")
  case None
  then have "productsMap (snd (addReturnItem ins now st)) = productsMap st"
    by (simp add: addReturnItem_def Let_def)
  with assms show ?thesis
    by (rule wf_products_same)
next
  case (Some p)
  then show ?thesis
    using assms by (simp add: addReturnItem_def Let_def wf_products_def list_all_update)
qed

lemma wf_products_deleteProduct:
  "wf_products st \<Longrightarrow> wf_products (snd (deleteProduct i st))"
  by (simp add: mem_deleteProduct wf_products_def list_all_delete)

lemma fresh_payment_ids_unused:
  "fresh_payment_ids st \<Longrightarrow> paymentIdCounter st \<notin> fst ` set (paymentsMap st)"
  unfolding fresh_payment_ids_def list_all_iff by auto

lemma fresh_payment_ids_createPayment:
  assumes "fresh_payment_ids st"
  shows "fresh_payment_ids (snd (createPayment Number String p now st))"
proof -
  let ?st' = "snd (createPayment Number String p now st)"
  let ?v = "\<lparr>pay_saleId = pay_saleId p, pay_amount = pay_amount p,
            pay_paymentMethod = pay_paymentMethod p, pay_date = pay_date p,
            pay_reference = pay_reference p, pay_createdBy = pay_createdBy p,
            pay_createdAt = now, pay_id = paymentIdCounter st\<rparr>"
  have m: "paymentsMap ?st' = AList.update (paymentIdCounter st) ?v (paymentsMap st)"
    and c: "paymentIdCounter ?st' = paymentIdCounter st + 1"
    by (simp_all add: createPayment_def Let_def mem_updateCustomerBalance_maps
          split: option.splits)
  have "list_all (\<lambda>(k, p). k < paymentIdCounter st + 1) (paymentsMap st)"
    using assms unfolding fresh_payment_ids_def list_all_iff by auto
  then show ?thesis
    unfolding fresh_payment_ids_def m c by (rule list_all_update) simp
qed

end
